theory Spec2Isabelle
  imports Main "HOL-Library.AList"
begin

section \<open>JavaScript values\<close>

text \<open>
  The provider handles untyped JavaScript values: method names, parameters, request and
  response objects, account lists and the fields of the public configuration snapshot.
  They are modelled as a tree of values. An object is an association list from property
  names to values; a lookup finds the first entry for a name.

  Values are compared as values. For primitives that is what \<open>===\<close> and \<open>!==\<close>
  do in JavaScript (the model has integers for numbers, so there is no \<open>NaN\<close>); for two
  arrays or two objects JavaScript compares references, which a tree of values cannot
  express. The addresses the reconciler compares are meant to be primitives. For the
  fields of a configuration snapshot the comparison is \<open>strict_eq\<close> below.
\<close>

datatype jsval =
    JUndefined
  | JNull
  | JBool bool
  | JNum int
  | JStr string
  | JArr "jsval list"
  | JObj "(string \<times> jsval) list"

type_synonym obj = "(string \<times> jsval) list"

datatype js_error =
    TypeError
  | Error string

text \<open>Truthiness, as used by \<open>if (v)\<close>, \<open>!v\<close> and \<open>a || b\<close>.\<close>

fun truthy :: "jsval \<Rightarrow> bool" where
  "truthy JUndefined = False"
| "truthy JNull = False"
| "truthy (JBool b) = b"
| "truthy (JNum n) = (n \<noteq> 0)"
| "truthy (JStr s) = (s \<noteq> [])"
| "truthy (JArr xs) = True"
| "truthy (JObj ps) = True"

definition js_or :: "jsval \<Rightarrow> jsval \<Rightarrow> jsval" where
  "js_or a b = (if truthy a then a else b)"

fun typeof_js :: "jsval \<Rightarrow> string" where
  "typeof_js JUndefined = ''undefined''"
| "typeof_js JNull = ''object''"
| "typeof_js (JBool b) = ''boolean''"
| "typeof_js (JNum n) = ''number''"
| "typeof_js (JStr s) = ''string''"
| "typeof_js (JArr xs) = ''object''"
| "typeof_js (JObj ps) = ''object''"

fun isArray :: "jsval \<Rightarrow> bool" where
  "isArray (JArr xs) = True"
| "isArray v = False"

text \<open>\<open>o.k\<close> on an object: \<open>undefined\<close> when the property is absent.\<close>

definition obj_get :: "obj \<Rightarrow> string \<Rightarrow> jsval" where
  "obj_get ps k = (case map_of ps k of None \<Rightarrow> JUndefined | Some v \<Rightarrow> v)"

text \<open>\<open>'k' in o\<close>.\<close>

definition obj_has :: "obj \<Rightarrow> string \<Rightarrow> bool" where
  "obj_has ps k = (map_of ps k \<noteq> None)"

text \<open>\<open>o.k = v\<close> and \<open>delete o.k\<close>.\<close>

definition obj_set :: "obj \<Rightarrow> string \<Rightarrow> jsval \<Rightarrow> obj" where
  "obj_set ps k v = AList.update k v ps"

definition obj_delete :: "obj \<Rightarrow> string \<Rightarrow> obj" where
  "obj_delete ps k = AList.delete k ps"

text \<open>
  \<open>v.k\<close> on any value: reading a property of \<open>undefined\<close> or \<open>null\<close> raises a
  TypeError; a primitive or an array has none of the properties the source reads by name
  (\<open>method\<close>, \<open>code\<close>, \<open>result\<close>, \<open>error\<close>).
\<close>

fun get_prop :: "jsval \<Rightarrow> string \<Rightarrow> js_error + jsval" where
  "get_prop JUndefined k = Inl TypeError"
| "get_prop JNull k = Inl TypeError"
| "get_prop (JObj ps) k = Inr (obj_get ps k)"
| "get_prop v k = Inr JUndefined"

text \<open>
  \<open>a === b\<close> between a value that arrived in a message and a cached one. Two primitives
  are identical when they are equal. An array or an object in a message is a value of its
  own, built when the message was read, so it is never identical to a value cached from an
  earlier message.
\<close>

fun is_primitive :: "jsval \<Rightarrow> bool" where
  "is_primitive (JArr xs) = False"
| "is_primitive (JObj ps) = False"
| "is_primitive v = True"

definition strict_eq :: "jsval \<Rightarrow> jsval \<Rightarrow> bool" where
  "strict_eq a b = (a = b \<and> is_primitive a)"

section \<open>The provider's state\<close>

text \<open>
  \<open>emit(name, args...)\<close> on the provider is recorded in the order of the calls, and so
  is every line written to the console or to the logger.
\<close>

datatype event = Emit string "jsval list"

datatype console_entry =
    ConsoleWarn string
  | ConsoleError string jsval
  | LogWarn string jsval
  | LogError string jsval

text \<open>
  A promise is pending until it is resolved or rejected, and settles at most once.
\<close>

datatype outcome = Pending | Resolved jsval | Rejected jsval

text \<open>
  The callbacks the source hands to \<open>rpcEngine.handle\<close> are closures; the model names
  each of them. \<open>RpcPromiseCallback n\<close> is \<open>rpcPromiseCallback(resolve, reject)\<close> for
  promise \<open>n\<close>. \<open>AccountsCallback cb\<close> is the wrapper \<open>_sendAsync\<close> puts around the
  caller's callback for \<open>eth_accounts\<close>. \<open>RequestAccountsStep s n\<close> is the
  \<open>rpcPromiseCallback\<close> of one request of \<open>_requestAccounts\<close> with the \<open>then\<close> and
  \<open>catch\<close> handlers chained on it, where \<open>n\<close> is the promise \<open>_requestAccounts\<close>
  returned. \<open>UserCallback k\<close> is a callback of the page (passed to \<open>sendAsync\<close>), and
  \<open>Noop\<close> is \<open>() => {}\<close>.
\<close>

datatype stage = Query | Permission | Requery

datatype callback =
    RpcPromiseCallback nat
  | AccountsCallback callback
  | RequestAccountsStep stage nat
  | UserCallback nat
  | Noop

text \<open>
  What the provider does with the RPC engine: \<open>rpcEngine.handle(payload, cb)\<close>, and
  the call \<open>sendSiteMetadata(rpcEngine)\<close> (a module that is not part of the sources
  here; it is recorded as one opaque use of the engine).
\<close>

datatype engine_call =
    Handle obj callback
  | SiteMetadata

text \<open>
  The public configuration store is an object of its own, created by the constructor from
  a storage key only. What the provider's code reads and writes on it, through \<open>this\<close>
  in the handler it subscribes, are the properties \<open>chainId\<close> and \<open>networkVersion\<close>
  and the method \<open>emit\<close>; the events emitted on the store are recorded apart from the
  provider's.
\<close>

record receiver =
  r_chainId :: jsval
  r_networkVersion :: jsval
  r_emitted :: "event list"

text \<open>
  The fields of the provider object (\<open>selectedAddress\<close>, \<open>networkVersion\<close>,
  \<open>chainId\<close>) and of the module-level \<open>_state\<close> object (prefix \<open>st_\<close>; the
  \<open>sentWarnings\<close> flags have the prefix \<open>warned_\<close>), and what the environment sees:
  emitted events, console output, the calls made on the RPC engine, the promises handed
  to callers, the invocations of the page's callbacks, the number of listeners
  for \<open>error\<close>, and \<open>window.web3.eth.defaultAccount\<close> when \<open>window.web3\<close> exists.
  \<open>store\<close> is the provider's \<open>publicConfigStore\<close>.
\<close>

record provider =
  selectedAddress :: jsval
  networkVersion :: jsval
  chainId :: jsval
  st_isConnected :: jsval
  st_accounts :: "jsval list"
  st_isUnlocked :: jsval
  st_sentSiteMetadata :: bool
  warned_enable :: bool
  warned_sendAsync :: bool
  warned_sendSync :: bool
  warned_signTypedData :: bool
  emitted :: "event list"
  console :: "console_entry list"
  engine :: "engine_call list"
  promises :: "outcome list"
  user_calls :: "(nat \<times> jsval \<times> obj) list"
  error_listeners :: nat
  web3_defaultAccount :: "jsval option"
  store :: receiver

definition emit :: "string \<Rightarrow> jsval list \<Rightarrow> provider \<Rightarrow> provider" where
  "emit name args p = p\<lparr>emitted := emitted p @ [Emit name args]\<rparr>"

definition console_log :: "console_entry \<Rightarrow> provider \<Rightarrow> provider" where
  "console_log e p = p\<lparr>console := console p @ [e]\<rparr>"

text \<open>
  The state after the constructor has run: the literal \<open>_state\<close> of the module and the
  three public fields set in \<open>MetamaskInpageProvider\<close>. The number of \<open>error\<close>
  listeners and the presence of \<open>window.web3\<close> belong to the page. The new store has
  no \<open>chainId\<close> and no \<open>networkVersion\<close> property, and has emitted nothing.
\<close>

definition init :: "nat \<Rightarrow> jsval option \<Rightarrow> provider" where
  "init listeners web3 =
     \<lparr> selectedAddress = JNull,
       networkVersion = JUndefined,
       chainId = JUndefined,
       st_isConnected = JUndefined,
       st_accounts = [],
       st_isUnlocked = JBool False,
       st_sentSiteMetadata = False,
       warned_enable = False,
       warned_sendAsync = False,
       warned_sendSync = False,
       warned_signTypedData = False,
       emitted = [],
       console = [],
       engine = [],
       promises = [],
       user_calls = [],
       error_listeners = listeners,
       web3_defaultAccount = web3,
       store = \<lparr> r_chainId = JUndefined, r_networkVersion = JUndefined, r_emitted = [] \<rparr> \<rparr>"

section \<open>The public configuration store\<close>

text \<open>
  The handler subscribed to \<open>publicConfigStore\<close>. It is a \<open>function\<close> expression, so
  \<open>this\<close> in its body is the object it is called on; that receiver is the first argument
  here, with the properties \<open>chainId\<close> and \<open>networkVersion\<close> and the method
  \<open>emit\<close>. \<open>_state.isUnlocked\<close> is the module's, whatever the receiver; it is
  the second argument and the second component of the result.
\<close>

definition publicConfigStore_handler :: "receiver \<Rightarrow> jsval \<Rightarrow> obj \<Rightarrow> receiver \<times> jsval" where
  "publicConfigStore_handler this isUnlocked state =
     (let u = (if obj_has state ''isUnlocked'' \<and> \<not> strict_eq (obj_get state ''isUnlocked'') isUnlocked
               then obj_get state ''isUnlocked''
               else isUnlocked);
          r1 = (if obj_has state ''chainId'' \<and> \<not> strict_eq (obj_get state ''chainId'') (r_chainId this)
                then (let q = this\<lparr>r_chainId := obj_get state ''chainId''\<rparr>
                      in q\<lparr>r_emitted := r_emitted q @ [Emit ''chainChanged'' [r_chainId q],
                                                      Emit ''chainIdChanged'' [r_chainId q]]\<rparr>)
                else this);
          r2 = (if obj_has state ''networkVersion''
                   \<and> \<not> strict_eq (obj_get state ''networkVersion'') (r_networkVersion r1)
                then (let q = r1\<lparr>r_networkVersion := obj_get state ''networkVersion''\<rparr>
                      in q\<lparr>r_emitted := r_emitted q @ [Emit ''networkChanged'' [r_networkVersion q]]\<rparr>)
                else r1)
      in (r2, u))"

text \<open>
  A snapshot arrives on the configuration stream and the store calls its subscribers. The
  store was created without any reference to the provider and the handler is not bound, so
  the receiver of the handler is the store and never the provider: the handler's
  \<open>this.chainId\<close>, \<open>this.networkVersion\<close> and \<open>this.emit\<close> are the store's. (The
  package of the store is not part of the sources here; the store is taken to be an event
  emitter that calls a subscriber as one of its listeners.)
\<close>

definition deliver_config :: "provider \<Rightarrow> obj \<Rightarrow> provider" where
  "deliver_config p state =
     (let (r, u) = publicConfigStore_handler (store p) (st_isUnlocked p) state
      in p\<lparr>store := r, st_isUnlocked := u\<rparr>)"

text \<open>The events a step added, and the events of one name among them.\<close>

definition new_events :: "provider \<Rightarrow> provider \<Rightarrow> event list" where
  "new_events p p' = drop (length (emitted p)) (emitted p')"

fun event_name :: "event \<Rightarrow> string" where
  "event_name (Emit name args) = name"

definition named :: "string \<Rightarrow> event list \<Rightarrow> event list" where
  "named name es = filter (\<lambda>e. event_name e = name) es"

section \<open>Connection lifecycle\<close>

text \<open>
  \<open>logStreamDisconnectWarning\<close>, bound to the provider. The error of the stream, when
  there is one, is represented by its \<open>stack\<close>. The provider is an event emitter, so the
  \<open>instanceof\<close> test holds and the \<open>error\<close> event is emitted when it has listeners.
\<close>

definition logStreamDisconnectWarning :: "provider \<Rightarrow> string \<Rightarrow> string option \<Rightarrow> provider" where
  "logStreamDisconnectWarning this remoteLabel err =
     (let warningMsg = ''MetamaskInpageProvider - lost connection to '' @ remoteLabel
                         @ (case err of None \<Rightarrow> [] | Some stack \<Rightarrow> CHR 0x0A # stack);
          p1 = console_log (ConsoleWarn warningMsg) this
      in if error_listeners p1 > 0 then emit ''error'' [JStr warningMsg] p1 else p1)"

text \<open>\<open>_handleDisconnect\<close>: called when a critical stream (base transport, RPC stream) ends.\<close>

definition handleDisconnect :: "provider \<Rightarrow> string \<Rightarrow> string option \<Rightarrow> provider" where
  "handleDisconnect this streamName err =
     (let p1 = logStreamDisconnectWarning this streamName err;
          p2 = (if truthy (st_isConnected p1)
                then emit ''close''
                       [JObj [(''code'', JNum 1011),
                              (''reason'', JStr ''MetaMask background communication error.'')]] p1
                else p1)
      in p2\<lparr>st_isConnected := JBool False\<rparr>)"

text \<open>
  The deferred \<open>this.emit('connect')\<close> of the constructor, with the provider's own
  listener for \<open>connect\<close>, which sets \<open>_state.isConnected\<close>.
\<close>

definition emit_connect :: "provider \<Rightarrow> provider" where
  "emit_connect this = (emit ''connect'' [] this)\<lparr>st_isConnected := JBool True\<rparr>"

section \<open>Accounts\<close>

text \<open>
  Modelled from the spec: \<open>dequal\<close> is the package \<open>fast-deep-equal\<close>, which is not
  part of the sources here. The spec describes it as structural, order-sensitive equality:
  two sequences are equal when they have the same length and their elements are pairwise
  equal. Elements that are not sequences are compared as values.
\<close>

fun dequal :: "jsval \<Rightarrow> jsval \<Rightarrow> bool"
  and dequal_list :: "jsval list \<Rightarrow> jsval list \<Rightarrow> bool" where
  "dequal (JArr xs) (JArr ys) = dequal_list xs ys"
| "dequal a b = (a = b)"
| "dequal_list [] [] = True"
| "dequal_list (x # xs) (y # ys) = (dequal x y \<and> dequal_list xs ys)"
| "dequal_list xs ys = False"

text \<open>\<open>xs[i]\<close>: \<open>undefined\<close> beyond the end of the array.\<close>

definition js_index :: "jsval list \<Rightarrow> nat \<Rightarrow> jsval" where
  "js_index xs i = (if i < length xs then xs ! i else JUndefined)"

fun elements :: "jsval \<Rightarrow> jsval list" where
  "elements (JArr xs) = xs"
| "elements v = []"

text \<open>
  \<open>_handleAccountsChanged\<close>. The last step (\<open>window.web3\<close>) is only in
  \<open>index.js\<close>; the other copy of the file ends after the selected address.
\<close>

definition handleAccountsChanged_part_000 :: "provider \<Rightarrow> jsval \<Rightarrow> provider" where
  "handleAccountsChanged_part_000 this accounts0 =
     (let p1 = (if \<not> isArray accounts0
                then console_log
                       (ConsoleError ''MetaMask: Received non-array accounts parameter. Please report this bug.''
                          accounts0) this
                else this);
          accounts = (if \<not> isArray accounts0 then [] else elements accounts0);
          p2 = (if \<not> dequal (JArr (st_accounts p1)) (JArr accounts)
                then (emit ''accountsChanged'' [JArr accounts] p1)\<lparr>st_accounts := accounts\<rparr>
                else p1)
      in if selectedAddress p2 \<noteq> js_index accounts 0
         then p2\<lparr>selectedAddress := js_or (js_index accounts 0) JNull\<rparr>
         else p2)"

definition handleAccountsChanged :: "provider \<Rightarrow> jsval \<Rightarrow> provider" where
  "handleAccountsChanged this accounts0 =
     (let p3 = handleAccountsChanged_part_000 this accounts0
      in case web3_defaultAccount p3 of
           None \<Rightarrow> p3
         | Some old \<Rightarrow> p3\<lparr>web3_defaultAccount := Some (selectedAddress p3)\<rparr>)"

section \<open>Requests\<close>

text \<open>
  The return handler of \<open>createErrorMiddleware\<close>, run on the response \<open>res\<close> of the
  request \<open>req\<close> on the way back through the engine. It returns what it logs and the
  response as it leaves it. \<open>error\<close> is truthy where its \<open>code\<close> is read, so the read
  cannot raise. \<open>serializeError(error)\<close> is called for its value, which is dropped.
\<close>

definition errorMiddleware_return :: "obj \<Rightarrow> obj \<Rightarrow> console_entry list \<times> obj" where
  "errorMiddleware_return req res =
     (let error = obj_get res ''error''
      in if \<not> truthy error then ([], res)
         else if obj_get req ''method'' = JStr ''eth_accounts''
                 \<and> get_prop error ''code'' = Inr (JNum 4100)
         then ([LogWarn ''MetaMask - Ignored RPC Error'' error],
               obj_set (obj_delete res ''error'') ''result'' (JArr []))
         else ([LogError ''MetaMask - RPC Error'' error], res))"

text \<open>\<open>rpcPromiseCallback(resolve, reject)\<close> applied to \<open>(error, response)\<close>.\<close>

definition rpcPromiseCallback :: "jsval \<Rightarrow> obj \<Rightarrow> outcome" where
  "rpcPromiseCallback error response =
     (if truthy (js_or error (obj_get response ''error''))
      then Rejected (js_or error (obj_get response ''error''))
      else Resolved (obj_get response ''result''))"

text \<open>Resolving or rejecting promise \<open>n\<close>: a settled promise does not change.\<close>

definition settle :: "nat \<Rightarrow> outcome \<Rightarrow> provider \<Rightarrow> provider" where
  "settle n out p =
     (if n < length (promises p) \<and> promises p ! n = Pending
      then p\<lparr>promises := (promises p)[n := out]\<rparr>
      else p)"

text \<open>\<open>new Promise(...)\<close>: the number of the new promise and the state that holds it.\<close>

definition new_promise :: "provider \<Rightarrow> nat \<times> provider" where
  "new_promise p = (length (promises p), p\<lparr>promises := promises p @ [Pending]\<rparr>)"

definition with_jsonrpc :: "obj \<Rightarrow> obj" where
  "with_jsonrpc payload =
     (if \<not> truthy (obj_get payload ''jsonrpc'')
      then obj_set payload ''jsonrpc'' (JStr ''2.0'')
      else payload)"

text \<open>
  \<open>_sendAsync\<close>: the payload gets its \<open>jsonrpc\<close> field, the site metadata is sent
  once, and the payload goes to the engine with the callback, wrapped for
  \<open>eth_accounts\<close>. The texts of the warnings are in a module that is not part of the
  sources here; a warning is recorded by the name of its message.
\<close>

definition sendAsync_internal :: "provider \<Rightarrow> obj \<Rightarrow> callback \<Rightarrow> provider" where
  "sendAsync_internal this payload0 userCallback =
     (let payload = with_jsonrpc payload0;
          p1 = (if \<not> st_sentSiteMetadata this
                then this\<lparr>engine := engine this @ [SiteMetadata], st_sentSiteMetadata := True\<rparr>
                else this);
          p2 = (if obj_get payload ''method'' = JStr ''eth_signTypedData'' \<and> \<not> warned_signTypedData p1
                then (console_log (ConsoleWarn ''messages.warnings.signTypedDataDeprecation'') p1)
                       \<lparr>warned_signTypedData := True\<rparr>
                else p1);
          cb = (if obj_get payload ''method'' = JStr ''eth_signTypedData'' \<and> \<not> warned_signTypedData p1
                then userCallback
                else if obj_get payload ''method'' = JStr ''eth_accounts''
                then AccountsCallback userCallback
                else userCallback)
      in p2\<lparr>engine := engine p2 @ [Handle payload cb]\<rparr>)"

text \<open>\<open>sendAsync\<close>, the deprecated public method.\<close>

definition sendAsync :: "provider \<Rightarrow> obj \<Rightarrow> callback \<Rightarrow> provider" where
  "sendAsync this payload cb =
     sendAsync_internal
       (if \<not> warned_sendAsync this
        then (console_log (ConsoleWarn ''messages.warnings.sendAsyncDeprecation'') this)
               \<lparr>warned_sendAsync := True\<rparr>
        else this)
       payload cb"

text \<open>
  The first lines of the \<open>eth_accounts\<close> callback of \<open>_sendAsync\<close>: the response as the
  block \<open>if (err) { ... }\<close> leaves it. \<open>err.code || res.error.code\<close> reads
  \<open>res.error.code\<close> only when \<open>err.code\<close> is falsy, and raises when \<open>res.error\<close> is
  then \<open>undefined\<close>.
\<close>

definition accounts_callback_res :: "jsval \<Rightarrow> obj \<Rightarrow> js_error + obj" where
  "accounts_callback_res err res =
     (if truthy err
      then (case get_prop err ''code'' of
              Inl e \<Rightarrow> Inl e
            | Inr c \<Rightarrow>
                (case (if truthy c then Inr c else get_prop (obj_get res ''error'') ''code'') of
                   Inl e \<Rightarrow> Inl e
                 | Inr code \<Rightarrow>
                     if code = JNum 4100
                     then Inr (obj_set (obj_delete res ''error'') ''result'' (JArr []))
                     else Inr res))
      else Inr res)"

text \<open>
  The engine calls a callback with \<open>(err, res)\<close>. The result is the state the callback
  leaves, or the error it raises into the engine.
\<close>

fun run_cb :: "callback \<Rightarrow> jsval \<Rightarrow> obj \<Rightarrow> provider \<Rightarrow> js_error + provider" where
  "run_cb (RpcPromiseCallback n) err res p = Inr (settle n (rpcPromiseCallback err res) p)"
| "run_cb (AccountsCallback userCallback) err res p =
     (case accounts_callback_res err res of
        Inl e \<Rightarrow> Inl e
      | Inr res1 \<Rightarrow>
          run_cb userCallback err res1
            (handleAccountsChanged p (js_or (obj_get res1 ''result'') (JArr []))))"
| "run_cb (RequestAccountsStep s n) err res p =
     (case rpcPromiseCallback err res of
        Pending \<Rightarrow> Inr p
      | Rejected e \<Rightarrow> Inr (settle n (Resolved JUndefined) (console_log (ConsoleError [] e) p))
      | Resolved result \<Rightarrow>
          (case s of
             Query \<Rightarrow>
               if \<not> isArray result \<or> length (elements result) = 0
               then Inr (sendAsync_internal p
                           [(''method'', JStr ''wallet_requestPermissions''),
                            (''params'', JArr [JObj [(''eth_accounts'', JObj [])]])]
                           (RequestAccountsStep Permission n))
               else Inr (settle n (Resolved result) p)
           | Permission \<Rightarrow>
               Inr (sendAsync_internal p [(''method'', JStr ''eth_accounts'')]
                      (RequestAccountsStep Requery n))
           | Requery \<Rightarrow> Inr (settle n (Resolved result) p)))"
| "run_cb (UserCallback k) err res p = Inr (p\<lparr>user_calls := user_calls p @ [(k, err, res)]\<rparr>)"
| "run_cb Noop err res p = Inr p"

text \<open>
  The engine answers the request it was handed in its \<open>i\<close>-th call, by calling that
  request's callback.
\<close>

definition engine_reply :: "provider \<Rightarrow> nat \<Rightarrow> jsval \<Rightarrow> obj \<Rightarrow> js_error + provider" where
  "engine_reply p i err res =
     (if i < length (engine p)
      then (case engine p ! i of
              Handle payload cb \<Rightarrow> run_cb cb err res p
            | SiteMetadata \<Rightarrow> Inr p)
      else Inr p)"

text \<open>
  What \<open>send\<close> returns: a promise, or for the deprecated synchronous methods the object
  \<open>makeThenable\<close> builds.
\<close>

datatype send_ret = RetPromise nat | RetThenable obj

text \<open>\<open>_requestAccounts\<close>: the first query; the rest of the chain is in \<open>run_cb\<close>.\<close>

definition requestAccounts :: "provider \<Rightarrow> send_ret \<times> provider" where
  "requestAccounts this =
     (let (n, p1) = new_promise this
      in (RetPromise n,
          sendAsync_internal p1 [(''method'', JStr ''eth_accounts'')] (RequestAccountsStep Query n)))"

definition enable :: "provider \<Rightarrow> send_ret \<times> provider" where
  "enable this =
     requestAccounts
       (if \<not> warned_enable this
        then (console_log (ConsoleWarn ''messages.warnings.enableDeprecation'') this)
               \<lparr>warned_enable := True\<rparr>
        else this)"

definition thenable :: "obj \<Rightarrow> jsval \<Rightarrow> send_ret" where
  "thenable payload result =
     RetThenable [(''id'', obj_get payload ''id''),
                  (''jsonrpc'', obj_get payload ''jsonrpc''),
                  (''result'', result)]"

text \<open>
  \<open>_sendSync\<close>. For \<open>eth_uninstallFilter\<close> the payload is sent first, which sets its
  \<open>jsonrpc\<close> field before the returned object reads it.
\<close>

definition sendSync :: "provider \<Rightarrow> obj \<Rightarrow> js_error + (send_ret \<times> provider)" where
  "sendSync this payload =
     (let p1 = (if \<not> warned_sendSync this
                then (console_log (ConsoleWarn ''messages.warnings.sendSyncDeprecation'') this)
                       \<lparr>warned_sendSync := True\<rparr>
                else this);
          m = obj_get payload ''method''
      in if m = JStr ''eth_accounts''
         then Inr (thenable payload
                     (if truthy (selectedAddress p1) then JArr [selectedAddress p1] else JArr []), p1)
         else if m = JStr ''eth_coinbase''
         then Inr (thenable payload (js_or (selectedAddress p1) JNull), p1)
         else if m = JStr ''eth_uninstallFilter''
         then Inr (thenable (with_jsonrpc payload) (JBool True), sendAsync p1 payload Noop)
         else if m = JStr ''net_version''
         then Inr (thenable payload (js_or (networkVersion p1) JNull), p1)
         else Inl (Error ''messages.errors.unsupportedSync()''))"

fun fields :: "jsval \<Rightarrow> obj" where
  "fields (JObj ps) = ps"
| "fields v = []"

text \<open>
  The second half of \<open>send\<close>, from the check of the payload on: the check, the handler
  for \<open>eth_requestAccounts\<close>, and the promise around \<open>_sendAsync\<close>. The text of the
  error is in the messages module; the error is recorded by the name of its message.
\<close>

definition send_dispatch :: "provider \<Rightarrow> jsval \<Rightarrow> js_error + (send_ret \<times> provider)" where
  "send_dispatch this payload =
     (if isArray payload \<or> typeof_js payload \<noteq> ''object''
      then Inl (Error ''messages.errors.invalidParams()'')
      else case get_prop payload ''method'' of
             Inl e \<Rightarrow> Inl e
           | Inr m \<Rightarrow>
               if typeof_js m \<noteq> ''string''
               then Inl (Error ''messages.errors.invalidParams()'')
               else if m = JStr ''eth_requestAccounts''
               then Inr (requestAccounts this)
               else (let (n, p1) = new_promise this
                     in Inr (RetPromise n,
                             sendAsync_internal p1 (fields payload) (RpcPromiseCallback n))))"

text \<open>\<open>send\<close> as in \<open>index.js\<close>, with the deprecated synchronous methods.\<close>

definition send :: "provider \<Rightarrow> jsval \<Rightarrow> jsval \<Rightarrow> js_error + (send_ret \<times> provider)" where
  "send this methodOrPayload params =
     (if params \<noteq> JUndefined
      then send_dispatch this
             (JObj [(''method'', methodOrPayload),
                    (''params'', if \<not> isArray params then JArr [params] else params)])
      else if typeof_js methodOrPayload = ''string''
      then send_dispatch this (JObj [(''method'', methodOrPayload), (''params'', params)])
      else case get_prop methodOrPayload ''method'' of
             Inl e \<Rightarrow> Inl e
           | Inr m \<Rightarrow>
               if m \<in> set [JStr ''eth_accounts'', JStr ''eth_coinbase'',
                           JStr ''eth_uninstallFilter'', JStr ''net_version'']
               then sendSync this (fields methodOrPayload)
               else send_dispatch this methodOrPayload)"

text \<open>\<open>send\<close> as in the other copy of the file, which has no synchronous methods.\<close>

definition send_part_000 :: "provider \<Rightarrow> jsval \<Rightarrow> jsval \<Rightarrow> js_error + (send_ret \<times> provider)" where
  "send_part_000 this methodOrPayload params =
     (if params \<noteq> JUndefined
      then send_dispatch this
             (JObj [(''method'', methodOrPayload),
                    (''params'', if \<not> isArray params then JArr [params] else params)])
      else if typeof_js methodOrPayload = ''string''
      then send_dispatch this (JObj [(''method'', methodOrPayload), (''params'', params)])
      else send_dispatch this methodOrPayload)"

section \<open>Notifications\<close>

text \<open>
  The provider's listener for its own \<open>data\<close> event. The event emitter catches what a
  listener raises, so when \<open>params.result\<close> raises nothing more is emitted.
\<close>

definition data_listener :: "provider \<Rightarrow> jsval \<Rightarrow> obj \<Rightarrow> provider" where
  "data_listener this error payload =
     (if \<not> truthy error \<and> obj_get payload ''method'' = JStr ''eth_subscription''
      then (case get_prop (obj_get payload ''params'') ''result'' of
              Inl e \<Rightarrow> this
            | Inr r \<Rightarrow> emit ''notification'' [r] this)
      else this)"

text \<open>The listener for \<open>notification\<close> on the RPC stream.\<close>

definition notification_handler :: "provider \<Rightarrow> obj \<Rightarrow> provider" where
  "notification_handler this payload =
     (if obj_get payload ''method'' = JStr ''wallet_accountsChanged''
      then handleAccountsChanged this (obj_get payload ''result'')
      else data_listener (emit ''data'' [JNull, JObj payload] this) JNull payload)"

section \<open>The provider as a machine\<close>

text \<open>
  Everything that can happen to a provider after its construction: the deferred
  \<open>connect\<close>, a configuration snapshot, the end of the configuration stream (which is only
  logged), the end of a critical stream, a notification, a call of \<open>send\<close>, \<open>enable\<close>
  or \<open>sendAsync\<close> by the page, and an answer of the engine. A call that raises leaves
  the state as it was. Left out are \<open>authorize\<close>, which only sends requests through
  \<open>_sendAsync\<close>, and the accessors \<open>isConnected\<close> and \<open>_metamask\<close>, which
  only read the state and set warning flags.
\<close>

datatype op =
    OpConnect
  | OpConfig obj
  | OpConfigEnd "string option"
  | OpDisconnect string "string option"
  | OpNotification obj
  | OpSend jsval jsval
  | OpEnable
  | OpSendAsync obj nat
  | OpReply nat jsval obj

fun apply_op :: "provider \<Rightarrow> op \<Rightarrow> provider" where
  "apply_op p OpConnect = emit_connect p"
| "apply_op p (OpConfig state) = deliver_config p state"
| "apply_op p (OpConfigEnd err) = logStreamDisconnectWarning p ''MetaMask PublicConfigStore'' err"
| "apply_op p (OpDisconnect streamName err) = handleDisconnect p streamName err"
| "apply_op p (OpNotification payload) = notification_handler p payload"
| "apply_op p (OpSend methodOrPayload params) =
     (case send p methodOrPayload params of Inl e \<Rightarrow> p | Inr (r, p') \<Rightarrow> p')"
| "apply_op p OpEnable = snd (enable p)"
| "apply_op p (OpSendAsync payload k) = sendAsync p payload (UserCallback k)"
| "apply_op p (OpReply i err res) =
     (case engine_reply p i err res of Inl e \<Rightarrow> p | Inr p' \<Rightarrow> p')"

definition run :: "provider \<Rightarrow> op list \<Rightarrow> provider" where
  "run p ops = foldl apply_op p ops"

section \<open>Observations\<close>

text \<open>
  Notions used to state the properties: the requests handed to the engine so far; an answer
  of the engine to the request it was handed last; the callback \<open>_sendAsync\<close> registers
  for a payload; the requests one call of \<open>send\<close> handed to the engine; states that
  agree on the accounts, and states that agree on the connection; and the relation between
  the selected address and the cached accounts, with the stronger form that every step
  preserves.
\<close>

definition same_accounts :: "provider \<Rightarrow> provider \<Rightarrow> bool" where
  "same_accounts p p' =
     (selectedAddress p' = selectedAddress p \<and> st_accounts p' = st_accounts p)"

definition same_connection :: "provider \<Rightarrow> provider \<Rightarrow> bool" where
  "same_connection p p' =
     (st_isConnected p' = st_isConnected p
      \<and> named ''close'' (emitted p') = named ''close'' (emitted p))"

definition selected_ok :: "provider \<Rightarrow> bool" where
  "selected_ok p =
     (selectedAddress p = JNull
      \<or> (st_accounts p \<noteq> [] \<and> selectedAddress p = hd (st_accounts p)))"

definition selected_inv :: "provider \<Rightarrow> bool" where
  "selected_inv p =
     (selected_ok p \<and> (selectedAddress p = JNull \<or> truthy (selectedAddress p)))"

fun request_of :: "engine_call \<Rightarrow> obj list" where
  "request_of (Handle payload cb) = [payload]"
| "request_of SiteMetadata = []"

definition requests :: "provider \<Rightarrow> obj list" where
  "requests p = concat (map request_of (engine p))"

definition reply_last :: "provider \<Rightarrow> jsval \<Rightarrow> obj \<Rightarrow> provider" where
  "reply_last p err res =
     (case engine_reply p (length (engine p) - 1) err res of Inl e \<Rightarrow> p | Inr p' \<Rightarrow> p')"

definition wrapped :: "provider \<Rightarrow> obj \<Rightarrow> callback \<Rightarrow> callback" where
  "wrapped p payload cb =
     (if obj_get payload ''method'' = JStr ''eth_signTypedData'' \<and> \<not> warned_signTypedData p
      then cb
      else if obj_get payload ''method'' = JStr ''eth_accounts''
      then AccountsCallback cb
      else cb)"

definition sent_requests :: "provider \<Rightarrow> js_error + send_ret \<times> provider \<Rightarrow> obj list" where
  "sent_requests p r =
     (case r of Inl e \<Rightarrow> [] | Inr (ret, p') \<Rightarrow> drop (length (requests p)) (requests p'))"

text \<open>The operations in which the engine calls a callback.\<close>

fun is_reply :: "op \<Rightarrow> bool" where
  "is_reply (OpReply i err res) = True"
| "is_reply other = False"

text \<open>
  The payload \<open>send\<close> builds from its two arguments, and what makes a payload
  malformed: it is an array or not an object at all, or its \<open>method\<close> is not a string.
\<close>

definition payload_of :: "jsval \<Rightarrow> jsval \<Rightarrow> jsval" where
  "payload_of methodOrPayload params =
     (if params \<noteq> JUndefined
      then JObj [(''method'', methodOrPayload),
                 (''params'', if \<not> isArray params then JArr [params] else params)]
      else if typeof_js methodOrPayload = ''string''
      then JObj [(''method'', methodOrPayload), (''params'', params)]
      else methodOrPayload)"

fun malformed :: "jsval \<Rightarrow> bool" where
  "malformed (JObj ps) = (typeof_js (obj_get ps ''method'') \<noteq> ''string'')"
| "malformed v = True"

section \<open>Basic facts\<close>

text \<open>What the small steps leave alone.\<close>

lemma emit_fields [simp]:
  "emitted (emit name args p) = emitted p @ [Emit name args]"
  "selectedAddress (emit name args p) = selectedAddress p"
  "networkVersion (emit name args p) = networkVersion p"
  "chainId (emit name args p) = chainId p"
  "st_isConnected (emit name args p) = st_isConnected p"
  "st_accounts (emit name args p) = st_accounts p"
  "st_isUnlocked (emit name args p) = st_isUnlocked p"
  "st_sentSiteMetadata (emit name args p) = st_sentSiteMetadata p"
  "warned_enable (emit name args p) = warned_enable p"
  "warned_sendAsync (emit name args p) = warned_sendAsync p"
  "warned_sendSync (emit name args p) = warned_sendSync p"
  "warned_signTypedData (emit name args p) = warned_signTypedData p"
  "console (emit name args p) = console p"
  "engine (emit name args p) = engine p"
  "promises (emit name args p) = promises p"
  "user_calls (emit name args p) = user_calls p"
  "error_listeners (emit name args p) = error_listeners p"
  "web3_defaultAccount (emit name args p) = web3_defaultAccount p"
  "store (emit name args p) = store p"
  by (simp_all add: emit_def)

lemma console_log_fields [simp]:
  "console (console_log e p) = console p @ [e]"
  "selectedAddress (console_log e p) = selectedAddress p"
  "networkVersion (console_log e p) = networkVersion p"
  "chainId (console_log e p) = chainId p"
  "st_isConnected (console_log e p) = st_isConnected p"
  "st_accounts (console_log e p) = st_accounts p"
  "st_isUnlocked (console_log e p) = st_isUnlocked p"
  "st_sentSiteMetadata (console_log e p) = st_sentSiteMetadata p"
  "warned_enable (console_log e p) = warned_enable p"
  "warned_sendAsync (console_log e p) = warned_sendAsync p"
  "warned_sendSync (console_log e p) = warned_sendSync p"
  "warned_signTypedData (console_log e p) = warned_signTypedData p"
  "emitted (console_log e p) = emitted p"
  "engine (console_log e p) = engine p"
  "promises (console_log e p) = promises p"
  "user_calls (console_log e p) = user_calls p"
  "error_listeners (console_log e p) = error_listeners p"
  "web3_defaultAccount (console_log e p) = web3_defaultAccount p"
  "store (console_log e p) = store p"
  by (simp_all add: console_log_def)

lemma new_events_append: "emitted p' = emitted p @ es \<Longrightarrow> new_events p p' = es"
  by (simp add: new_events_def)

section \<open>Configuration snapshots\<close>

text \<open>What the handler does to its receiver and to the lock flag.\<close>

lemma handler_chainId:
  "r_chainId (fst (publicConfigStore_handler this u state)) =
     (if obj_has state ''chainId'' \<and> \<not> strict_eq (obj_get state ''chainId'') (r_chainId this)
      then obj_get state ''chainId'' else r_chainId this)"
  by (auto simp: publicConfigStore_handler_def Let_def)

lemma handler_networkVersion:
  "r_networkVersion (fst (publicConfigStore_handler this u state)) =
     (if obj_has state ''networkVersion''
         \<and> \<not> strict_eq (obj_get state ''networkVersion'') (r_networkVersion this)
      then obj_get state ''networkVersion'' else r_networkVersion this)"
  by (auto simp: publicConfigStore_handler_def Let_def)

lemma handler_emitted:
  "r_emitted (fst (publicConfigStore_handler this u state)) = r_emitted this @
     ((if obj_has state ''chainId'' \<and> \<not> strict_eq (obj_get state ''chainId'') (r_chainId this)
       then [Emit ''chainChanged'' [obj_get state ''chainId''],
             Emit ''chainIdChanged'' [obj_get state ''chainId'']]
       else [])
    @ (if obj_has state ''networkVersion''
          \<and> \<not> strict_eq (obj_get state ''networkVersion'') (r_networkVersion this)
       then [Emit ''networkChanged'' [obj_get state ''networkVersion'']]
       else []))"
  by (auto simp: publicConfigStore_handler_def Let_def)

lemma handler_isUnlocked:
  "snd (publicConfigStore_handler this u state) =
     (if obj_has state ''isUnlocked'' \<and> \<not> strict_eq (obj_get state ''isUnlocked'') u
      then obj_get state ''isUnlocked'' else u)"
  by (auto simp: publicConfigStore_handler_def Let_def)

text \<open>
  The second delivery of a snapshot whose chain id and network version are primitives
  changes nothing on the receiver.
\<close>

lemma handler_repeat:
  assumes "is_primitive (obj_get state ''chainId'')" "is_primitive (obj_get state ''networkVersion'')"
  shows "r_emitted (fst (publicConfigStore_handler (fst (publicConfigStore_handler this u state)) u' state))
           = r_emitted (fst (publicConfigStore_handler this u state))"
  using assms
  by (simp add: handler_emitted [of "fst (publicConfigStore_handler this u state)"]
        handler_chainId handler_networkVersion strict_eq_def)

text \<open>What the delivery of a snapshot changes of the provider: the store and the lock flag.\<close>

lemma deliver_config_fields [simp]:
  "store (deliver_config p state) = fst (publicConfigStore_handler (store p) (st_isUnlocked p) state)"
  "st_isUnlocked (deliver_config p state) = snd (publicConfigStore_handler (store p) (st_isUnlocked p) state)"
  "selectedAddress (deliver_config p state) = selectedAddress p"
  "networkVersion (deliver_config p state) = networkVersion p"
  "chainId (deliver_config p state) = chainId p"
  "st_isConnected (deliver_config p state) = st_isConnected p"
  "st_accounts (deliver_config p state) = st_accounts p"
  "st_sentSiteMetadata (deliver_config p state) = st_sentSiteMetadata p"
  "warned_enable (deliver_config p state) = warned_enable p"
  "warned_sendAsync (deliver_config p state) = warned_sendAsync p"
  "warned_sendSync (deliver_config p state) = warned_sendSync p"
  "warned_signTypedData (deliver_config p state) = warned_signTypedData p"
  "emitted (deliver_config p state) = emitted p"
  "console (deliver_config p state) = console p"
  "engine (deliver_config p state) = engine p"
  "promises (deliver_config p state) = promises p"
  "user_calls (deliver_config p state) = user_calls p"
  "error_listeners (deliver_config p state) = error_listeners p"
  "web3_defaultAccount (deliver_config p state) = web3_defaultAccount p"
  by (simp_all add: deliver_config_def split_beta)

section \<open>Objects and event lists\<close>

lemma obj_get_simps [simp]:
  "obj_get [] k = JUndefined"
  "obj_get ((k', v) # ps) k = (if k' = k then v else obj_get ps k)"
  by (simp_all add: obj_get_def)

lemma obj_has_simps [simp]:
  "obj_has [] k = False"
  "obj_has ((k', v) # ps) k = (k' = k \<or> obj_has ps k)"
  by (auto simp: obj_has_def)

lemma obj_set_simps [simp]:
  "obj_set [] k v = [(k, v)]"
  "obj_set ((k', v') # ps) k v = (if k' = k then (k, v) # ps else (k', v') # obj_set ps k v)"
  by (simp_all add: obj_set_def)

lemma obj_delete_simps [simp]:
  "obj_delete [] k = []"
  "obj_delete ((k', v') # ps) k = (if k' = k then obj_delete ps k else (k', v') # obj_delete ps k)"
  by (simp_all add: obj_delete_def)

lemma same_accounts_refl [simp]: "same_accounts p p"
  by (simp add: same_accounts_def)

lemma same_accounts_trans: "same_accounts p q \<Longrightarrow> same_accounts q r \<Longrightarrow> same_accounts p r"
  by (simp add: same_accounts_def)

lemma same_connection_refl [simp]: "same_connection p p"
  by (simp add: same_connection_def)

lemma same_connection_trans:
  "same_connection p q \<Longrightarrow> same_connection q r \<Longrightarrow> same_connection p r"
  by (simp add: same_connection_def)

lemma named_append [simp]: "named n (xs @ ys) = named n xs @ named n ys"
  by (simp add: named_def)

lemma named_Nil [simp]: "named n [] = []"
  by (simp add: named_def)

lemma named_Cons [simp]:
  "named n (Emit m args # es) = (if m = n then Emit m args # named n es else named n es)"
  by (simp add: named_def)

lemma emit_same_accounts [simp]: "same_accounts p (emit n a p)"
  by (simp add: same_accounts_def)

lemma emit_same_connection [simp]: "n \<noteq> ''close'' \<Longrightarrow> same_connection p (emit n a p)"
  by (simp add: same_connection_def)

lemma console_log_same [simp]:
  "same_accounts p (console_log e p)" "same_connection p (console_log e p)"
  by (simp_all add: same_accounts_def same_connection_def)

lemma settle_fields [simp]:
  "selectedAddress (settle n out p) = selectedAddress p"
  "st_accounts (settle n out p) = st_accounts p"
  "st_isConnected (settle n out p) = st_isConnected p"
  "emitted (settle n out p) = emitted p"
  "engine (settle n out p) = engine p"
  "console (settle n out p) = console p"
  by (simp_all add: settle_def)

lemma settle_same [simp]:
  "same_accounts p (settle n out p)" "same_connection p (settle n out p)"
  by (simp_all add: same_accounts_def same_connection_def)

lemma new_promise_fields [simp]:
  "selectedAddress (snd (new_promise p)) = selectedAddress p"
  "st_accounts (snd (new_promise p)) = st_accounts p"
  "st_isConnected (snd (new_promise p)) = st_isConnected p"
  "emitted (snd (new_promise p)) = emitted p"
  "engine (snd (new_promise p)) = engine p"
  "console (snd (new_promise p)) = console p"
  "promises (snd (new_promise p)) = promises p @ [Pending]"
  "fst (new_promise p) = length (promises p)"
  "st_sentSiteMetadata (snd (new_promise p)) = st_sentSiteMetadata p"
  "warned_signTypedData (snd (new_promise p)) = warned_signTypedData p"
  by (simp_all add: new_promise_def)

lemma sendAsync_internal_fields [simp]:
  "selectedAddress (sendAsync_internal p payload cb) = selectedAddress p"
  "st_accounts (sendAsync_internal p payload cb) = st_accounts p"
  "st_isConnected (sendAsync_internal p payload cb) = st_isConnected p"
  "emitted (sendAsync_internal p payload cb) = emitted p"
  "promises (sendAsync_internal p payload cb) = promises p"
  by (simp_all add: sendAsync_internal_def Let_def)

lemma sendAsync_fields [simp]:
  "selectedAddress (sendAsync p payload cb) = selectedAddress p"
  "st_accounts (sendAsync p payload cb) = st_accounts p"
  "st_isConnected (sendAsync p payload cb) = st_isConnected p"
  "emitted (sendAsync p payload cb) = emitted p"
  "promises (sendAsync p payload cb) = promises p"
  by (simp_all add: sendAsync_def)

lemma requestAccounts_fields [simp]:
  "selectedAddress (snd (requestAccounts p)) = selectedAddress p"
  "st_accounts (snd (requestAccounts p)) = st_accounts p"
  "st_isConnected (snd (requestAccounts p)) = st_isConnected p"
  "emitted (snd (requestAccounts p)) = emitted p"
  "promises (snd (requestAccounts p)) = promises p @ [Pending]"
  by (simp_all add: requestAccounts_def split_beta Let_def)

lemma enable_fields [simp]:
  "selectedAddress (snd (enable p)) = selectedAddress p"
  "st_accounts (snd (enable p)) = st_accounts p"
  "st_isConnected (snd (enable p)) = st_isConnected p"
  "emitted (snd (enable p)) = emitted p"
  by (simp_all add: enable_def)

section \<open>What each operation leaves alone\<close>

lemma sendSync_fields:
  assumes "sendSync p payload = Inr (r, p')"
  shows "selectedAddress p' = selectedAddress p" "st_accounts p' = st_accounts p"
    "st_isConnected p' = st_isConnected p" "emitted p' = emitted p"
  using assms by (auto simp: sendSync_def Let_def split: if_splits)

lemma send_dispatch_fields:
  assumes "send_dispatch p payload = Inr (r, p')"
  shows "selectedAddress p' = selectedAddress p" "st_accounts p' = st_accounts p"
    "st_isConnected p' = st_isConnected p" "emitted p' = emitted p"
  using assms
  by (auto simp: send_dispatch_def split_beta Let_def prod_eq_iff split: if_splits sum.splits)

lemma send_fields:
  assumes "send p m ps = Inr (r, p')"
  shows "selectedAddress p' = selectedAddress p" "st_accounts p' = st_accounts p"
    "st_isConnected p' = st_isConnected p" "emitted p' = emitted p"
  using assms
  by (auto simp: send_def dest: send_dispatch_fields sendSync_fields split: if_splits sum.splits)

lemma logStreamDisconnectWarning_fields [simp]:
  "selectedAddress (logStreamDisconnectWarning p l e) = selectedAddress p"
  "st_accounts (logStreamDisconnectWarning p l e) = st_accounts p"
  "st_isConnected (logStreamDisconnectWarning p l e) = st_isConnected p"
  "promises (logStreamDisconnectWarning p l e) = promises p"
  "engine (logStreamDisconnectWarning p l e) = engine p"
  "user_calls (logStreamDisconnectWarning p l e) = user_calls p"
  "named ''close'' (emitted (logStreamDisconnectWarning p l e)) = named ''close'' (emitted p)"
  by (simp_all add: logStreamDisconnectWarning_def Let_def)

lemma handleDisconnect_fields [simp]:
  "selectedAddress (handleDisconnect p l e) = selectedAddress p"
  "st_accounts (handleDisconnect p l e) = st_accounts p"
  "st_isConnected (handleDisconnect p l e) = JBool False"
  "promises (handleDisconnect p l e) = promises p"
  "engine (handleDisconnect p l e) = engine p"
  "user_calls (handleDisconnect p l e) = user_calls p"
  by (simp_all add: handleDisconnect_def Let_def)

lemma emit_connect_fields [simp]:
  "selectedAddress (emit_connect p) = selectedAddress p"
  "st_accounts (emit_connect p) = st_accounts p"
  "st_isConnected (emit_connect p) = JBool True"
  by (simp_all add: emit_connect_def)

lemma data_listener_fields [simp]:
  "selectedAddress (data_listener p e payload) = selectedAddress p"
  "st_accounts (data_listener p e payload) = st_accounts p"
  "st_isConnected (data_listener p e payload) = st_isConnected p"
  "named ''close'' (emitted (data_listener p e payload)) = named ''close'' (emitted p)"
  by (simp_all add: data_listener_def split: sum.splits)

section \<open>The accounts reconciler\<close>

lemma dequal_iff: "dequal a b = (a = b)" and dequal_list_iff: "dequal_list xs ys = (xs = ys)"
  by (induction a b and xs ys rule: dequal_dequal_list.induct) simp_all

lemma js_index_0: "js_index xs 0 = (case xs of [] \<Rightarrow> JUndefined | x # _ \<Rightarrow> x)"
  by (simp add: js_index_def split: list.splits)

lemma hAC0_emitted:
  "emitted (handleAccountsChanged_part_000 p a) = emitted p @
     (if dequal (JArr (st_accounts p)) (JArr (elements a)) then []
      else [Emit ''accountsChanged'' [JArr (elements a)]])"
  by (cases a) (simp_all add: handleAccountsChanged_part_000_def Let_def)

lemma hAC0_accounts:
  "st_accounts (handleAccountsChanged_part_000 p a) =
     (if dequal (JArr (st_accounts p)) (JArr (elements a)) then st_accounts p else elements a)"
  by (cases a) (simp_all add: handleAccountsChanged_part_000_def Let_def)

lemma hAC0_console:
  "console (handleAccountsChanged_part_000 p a) = console p @
     (if isArray a then []
      else [ConsoleError ''MetaMask: Received non-array accounts parameter. Please report this bug.'' a])"
  by (cases a) (simp_all add: handleAccountsChanged_part_000_def Let_def)

lemma hAC0_selected:
  "selectedAddress (handleAccountsChanged_part_000 p a) =
     (if selectedAddress p \<noteq> js_index (elements a) 0
      then js_or (js_index (elements a) 0) JNull
      else selectedAddress p)"
  by (cases a) (simp_all add: handleAccountsChanged_part_000_def Let_def)

lemma hAC0_other [simp]:
  "st_isConnected (handleAccountsChanged_part_000 p a) = st_isConnected p"
  "promises (handleAccountsChanged_part_000 p a) = promises p"
  "engine (handleAccountsChanged_part_000 p a) = engine p"
  "web3_defaultAccount (handleAccountsChanged_part_000 p a) = web3_defaultAccount p"
  by (simp_all add: handleAccountsChanged_part_000_def Let_def)

lemma hAC_fields:
  "emitted (handleAccountsChanged p a) = emitted (handleAccountsChanged_part_000 p a)"
  "st_accounts (handleAccountsChanged p a) = st_accounts (handleAccountsChanged_part_000 p a)"
  "console (handleAccountsChanged p a) = console (handleAccountsChanged_part_000 p a)"
  "selectedAddress (handleAccountsChanged p a) = selectedAddress (handleAccountsChanged_part_000 p a)"
  "st_isConnected (handleAccountsChanged p a) = st_isConnected p"
  "promises (handleAccountsChanged p a) = promises p"
  "engine (handleAccountsChanged p a) = engine p"
  by (simp_all add: handleAccountsChanged_def Let_def split: option.splits)

lemma hAC_web3:
  "web3_defaultAccount (handleAccountsChanged p a) =
     (case web3_defaultAccount p of None \<Rightarrow> None
      | Some old \<Rightarrow> Some (selectedAddress (handleAccountsChanged p a)))"
  by (simp add: handleAccountsChanged_def Let_def split: option.splits)

lemma init_fields [simp]:
  "selectedAddress (init l w) = JNull"
  "st_accounts (init l w) = []"
  "emitted (init l w) = []"
  "st_isConnected (init l w) = JUndefined"
  "promises (init l w) = []"
  "engine (init l w) = []"
  "console (init l w) = []"
  "chainId (init l w) = JUndefined"
  "networkVersion (init l w) = JUndefined"
  "st_isUnlocked (init l w) = JBool False"
  "st_sentSiteMetadata (init l w) = False"
  "warned_signTypedData (init l w) = False"
  "store (init l w) = \<lparr> r_chainId = JUndefined, r_networkVersion = JUndefined, r_emitted = [] \<rparr>"
  by (simp_all add: init_def)

lemma selected_inv_init: "selected_inv (init l w)"
  by (simp add: selected_inv_def selected_ok_def)

lemma selected_inv_same: "same_accounts p p' \<Longrightarrow> selected_inv p \<Longrightarrow> selected_inv p'"
  by (simp add: selected_inv_def selected_ok_def same_accounts_def)

lemma hAC_selected_inv: "selected_inv p \<Longrightarrow> selected_inv (handleAccountsChanged p a)"
proof -
  assume inv: "selected_inv p"
  let ?xs = "elements a"
  show ?thesis
  proof (cases ?xs)
    case Nil
    with inv show ?thesis
      by (auto simp: selected_inv_def selected_ok_def hAC_fields hAC0_selected hAC0_accounts
            dequal_iff js_index_0 js_or_def)
  next
    case (Cons x xs)
    with inv show ?thesis
      by (auto simp: selected_inv_def selected_ok_def hAC_fields hAC0_selected hAC0_accounts
            dequal_iff js_index_0 js_or_def)
  qed
qed

lemma hAC_selected_reachable:
  assumes "selected_inv p"
  shows "selectedAddress (handleAccountsChanged p a) =
           (if truthy (js_index (elements a) 0) then js_index (elements a) 0 else JNull)"
  using assms
  by (auto simp: selected_inv_def hAC_fields hAC0_selected js_or_def)

lemma hAC_same_connection [simp]: "same_connection p (handleAccountsChanged p a)"
  by (simp add: same_connection_def hAC_fields hAC0_emitted)

lemma sendAsync_internal_same [simp]:
  "same_accounts p (sendAsync_internal p payload cb)"
  "same_connection p (sendAsync_internal p payload cb)"
  by (simp_all add: same_accounts_def same_connection_def)

lemma run_cb_same_connection:
  "run_cb cb err res p = Inr p' \<Longrightarrow> same_connection p p'"
proof (induction cb arbitrary: res p)
  case (AccountsCallback cb)
  then show ?case
    by (auto split: sum.splits intro: same_connection_trans [OF hAC_same_connection])
next
  case (RequestAccountsStep s n)
  then show ?case
    by (cases s) (auto simp: same_connection_def split: outcome.splits if_splits)
qed (auto simp: same_connection_def)

lemma run_cb_selected_inv:
  "run_cb cb err res p = Inr p' \<Longrightarrow> selected_inv p \<Longrightarrow> selected_inv p'"
proof (induction cb arbitrary: res p)
  case (AccountsCallback cb)
  then show ?case
    by (auto split: sum.splits intro: hAC_selected_inv)
next
  case (RequestAccountsStep s n)
  then show ?case
    by (cases s)
      (auto simp: selected_inv_def selected_ok_def split: outcome.splits if_splits)
qed (auto simp: selected_inv_def selected_ok_def)

section \<open>Invariants of the machine\<close>

lemma notification_selected_inv:
  "selected_inv p \<Longrightarrow> selected_inv (notification_handler p payload)"
  by (auto simp: notification_handler_def intro: hAC_selected_inv)
     (simp add: selected_inv_def selected_ok_def)

lemma notification_same_connection: "same_connection p (notification_handler p payload)"
  by (simp add: notification_handler_def)
     (simp add: same_connection_def)

lemma send_same:
  assumes "send p m ps = Inr (r, p')"
  shows "same_accounts p p'" "same_connection p p'"
  using send_fields [OF assms] by (simp_all add: same_accounts_def same_connection_def)

lemma apply_op_selected_inv: "selected_inv p \<Longrightarrow> selected_inv (apply_op p op)"
proof (cases op)
  case (OpNotification payload)
  then show "selected_inv p \<Longrightarrow> ?thesis" by (simp add: notification_selected_inv)
next
  case (OpSend m ps)
  then show "selected_inv p \<Longrightarrow> ?thesis"
    by (auto split: sum.splits dest: send_same(1) selected_inv_same)
next
  case (OpReply i err res)
  then show "selected_inv p \<Longrightarrow> ?thesis"
    by (auto simp: engine_reply_def split: sum.splits engine_call.splits if_splits
          dest: run_cb_selected_inv)
qed (simp_all add: selected_inv_def selected_ok_def)

lemma run_selected_inv: "selected_inv p \<Longrightarrow> selected_inv (run p ops)"
  unfolding run_def
  by (induction ops arbitrary: p) (simp_all add: apply_op_selected_inv)

lemma apply_op_same_connection:
  assumes "op \<noteq> OpConnect" and "\<And>s e. op \<noteq> OpDisconnect s e"
  shows "same_connection p (apply_op p op)"
proof (cases op)
  case (OpSend m ps)
  then show ?thesis
    by (auto split: sum.splits dest: send_same(2))
next
  case (OpReply i err res)
  then show ?thesis
    by (auto simp: engine_reply_def split: sum.splits engine_call.splits if_splits
          dest: run_cb_same_connection)
next
  case (OpConfig state)
  then show ?thesis by (simp add: same_connection_def)
qed (use assms in \<open>simp_all add: same_connection_def notification_same_connection [unfolded same_connection_def]\<close>)

lemma handleDisconnect_close:
  "named ''close'' (emitted (handleDisconnect p s e)) =
     named ''close'' (emitted p) @
     (if truthy (st_isConnected p)
      then [Emit ''close'' [JObj [(''code'', JNum 1011),
                                  (''reason'', JStr ''MetaMask background communication error.'')]]]
      else [])"
  by (simp add: handleDisconnect_def Let_def)

lemma run_Cons: "run p (op # ops) = run (apply_op p op) ops"
  by (simp add: run_def)

lemma run_disconnected:
  "\<not> truthy (st_isConnected p) \<Longrightarrow> OpConnect \<notin> set ops \<Longrightarrow>
     named ''close'' (emitted (run p ops)) = named ''close'' (emitted p)
     \<and> \<not> truthy (st_isConnected (run p ops))"
proof (induction ops arbitrary: p)
  case Nil
  then show ?case by (simp add: run_def)
next
  case (Cons op ops)
  show ?case
  proof (cases "\<exists>s e. op = OpDisconnect s e")
    case True
    then obtain s e where op: "op = OpDisconnect s e" by blast
    have "\<not> truthy (st_isConnected (apply_op p op))" by (simp add: op)
    moreover have "named ''close'' (emitted (apply_op p op)) = named ''close'' (emitted p)"
      using Cons.prems(1) by (simp add: op handleDisconnect_close)
    ultimately show ?thesis
      using Cons.IH [of "apply_op p op"] Cons.prems(2) by (simp add: run_Cons)
  next
    case False
    with Cons.prems(2) have "same_connection p (apply_op p op)"
      by (intro apply_op_same_connection) auto
    with Cons.prems(1) have "\<not> truthy (st_isConnected (apply_op p op))"
      and "named ''close'' (emitted (apply_op p op)) = named ''close'' (emitted p)"
      by (simp_all add: same_connection_def)
    then show ?thesis
      using Cons.IH [of "apply_op p op"] Cons.prems(2) by (simp add: run_Cons)
  qed
qed

lemma run_close_once:
  "OpConnect \<notin> set ops \<Longrightarrow>
     length (named ''close'' (emitted (run p ops))) \<le> Suc (length (named ''close'' (emitted p)))"
proof (induction ops arbitrary: p)
  case Nil
  then show ?case by (simp add: run_def)
next
  case (Cons op ops)
  show ?case
  proof (cases "\<exists>s e. op = OpDisconnect s e")
    case True
    then obtain s e where op: "op = OpDisconnect s e" by blast
    have "\<not> truthy (st_isConnected (apply_op p op))" by (simp add: op)
    with Cons.prems have "named ''close'' (emitted (run (apply_op p op) ops))
        = named ''close'' (emitted (apply_op p op))"
      using run_disconnected [of "apply_op p op" ops] by simp
    then show ?thesis
      by (simp add: run_Cons op handleDisconnect_close)
  next
    case False
    with Cons.prems have "same_connection p (apply_op p op)"
      by (intro apply_op_same_connection) auto
    then show ?thesis
      using Cons.IH [of "apply_op p op"] Cons.prems
      by (simp add: run_Cons same_connection_def)
  qed
qed

section \<open>Accounts, selected address and connection: the claims\<close>

text \<open>
  C3. For every input of \<open>_handleAccountsChanged\<close>, in both copies of the file: the
  function returns for every input (it has no raising branch); an input that is not an
  array is written to the console and replaced by the empty list; \<open>accountsChanged\<close> is
  emitted with the new list, and the cached list replaced by it, exactly when the new list
  is not deep-equal to the cached list; when they are deep-equal nothing is emitted and the
  cache stays. Two lists are deep-equal exactly when they have the same length and their
  elements are pairwise deep-equal, in order.
\<close>

theorem accounts_reconciler:
  "emitted (handleAccountsChanged this input) = emitted this @
       (if dequal (JArr (st_accounts this)) (JArr (elements input)) then []
        else [Emit ''accountsChanged'' [JArr (elements input)]])
   \<and> st_accounts (handleAccountsChanged this input) =
       (if dequal (JArr (st_accounts this)) (JArr (elements input)) then st_accounts this
        else elements input)
   \<and> console (handleAccountsChanged this input) = console this @
       (if isArray input then []
        else [ConsoleError ''MetaMask: Received non-array accounts parameter. Please report this bug.'' input])
   \<and> (if isArray input then input = JArr (elements input) else elements input = [])
   \<and> dequal (JArr xs) (JArr ys) = list_all2 dequal xs ys
   \<and> emitted (handleAccountsChanged_part_000 this input) = emitted (handleAccountsChanged this input)
   \<and> st_accounts (handleAccountsChanged_part_000 this input) = st_accounts (handleAccountsChanged this input)
   \<and> console (handleAccountsChanged_part_000 this input) = console (handleAccountsChanged this input)"
proof -
  have "list_all2 dequal xs ys = (xs = ys)"
    by (simp add: dequal_iff [abs_def] list.rel_eq)
  moreover have "isArray input \<Longrightarrow> input = JArr (elements input)"
    by (cases input) simp_all
  moreover have "\<not> isArray input \<Longrightarrow> elements input = []"
    by (cases input) simp_all
  ultimately show ?thesis
    by (simp add: hAC_fields hAC0_emitted hAC0_accounts hAC0_console dequal_iff)
qed

text \<open>
  The example of the specification: the same list twice gives one event, two different
  lists give two, and the selected address goes from \<open>null\<close> to the first and then to
  the second address.
\<close>

lemma accounts_dedup_example:
  "emitted (handleAccountsChanged (handleAccountsChanged (init l w) (JArr [JStr ''0xA'']))
      (JArr [JStr ''0xA''])) = [Emit ''accountsChanged'' [JArr [JStr ''0xA'']]]"
  "emitted (handleAccountsChanged (handleAccountsChanged (init l w) (JArr [JStr ''0xA'']))
      (JArr [JStr ''0xB'']))
     = [Emit ''accountsChanged'' [JArr [JStr ''0xA'']], Emit ''accountsChanged'' [JArr [JStr ''0xB'']]]"
  "selectedAddress (init l w) = JNull"
  "selectedAddress (handleAccountsChanged (init l w) (JArr [JStr ''0xA''])) = JStr ''0xA''"
  "selectedAddress (handleAccountsChanged (handleAccountsChanged (init l w) (JArr [JStr ''0xA'']))
      (JArr [JStr ''0xB''])) = JStr ''0xB''"
  by (simp_all add: hAC_fields hAC0_emitted hAC0_accounts hAC0_selected dequal_iff js_index_def js_or_def)

text \<open>
  C4, as stated, fails: the reconciler does not always make the selected address the first
  element of a non-empty list. For the list with the empty string as its only element,
  \<open>accounts[0] || null\<close> is \<open>null\<close>.
\<close>

theorem selected_address_falsy_first:
  "elements (JArr [JStr '''']) \<noteq> []
   \<and> selectedAddress (handleAccountsChanged (init 0 None) (JArr [JStr ''''])) = JNull
   \<and> hd (elements (JArr [JStr ''''])) \<noteq> JNull"
  by (simp add: hAC_fields hAC0_selected js_index_def js_or_def)

text \<open>
  C4, amended. After the construction and after any sequence of operations, the selected
  address is \<open>null\<close> or the first element of the cached accounts list, and so it is after
  a further call of the reconciler with any input. In such a state the reconciler makes the
  selected address the first element of the new list when that element is truthy, and
  \<open>null\<close> otherwise (the list is empty, or its first element is falsy). In any state it
  writes the selected address only when the cached value differs from the first element.
\<close>

theorem selected_address_invariant:
  "selected_ok (run (init l w) ops)
   \<and> selectedAddress (handleAccountsChanged (run (init l w) ops) input) =
       (if truthy (js_index (elements input) 0) then js_index (elements input) 0 else JNull)
   \<and> selected_ok (handleAccountsChanged (run (init l w) ops) input)
   \<and> selectedAddress (handleAccountsChanged this input) =
       (if selectedAddress this \<noteq> js_index (elements input) 0
        then (if truthy (js_index (elements input) 0) then js_index (elements input) 0 else JNull)
        else selectedAddress this)"
proof -
  have inv: "selected_inv (run (init l w) ops)"
    by (rule run_selected_inv) (rule selected_inv_init)
  have "selected_inv (handleAccountsChanged (run (init l w) ops) input)"
    using inv by (rule hAC_selected_inv)
  with inv show ?thesis
    by (simp add: hAC_selected_reachable) (simp add: selected_inv_def hAC_fields hAC0_selected js_or_def)
qed

text \<open>
  C6. \<open>_handleDisconnect\<close> emits \<open>close\<close>, with the code 1011 and the reason text, only
  when the connected flag is set, and clears the flag. Whatever happens after a disconnect
  signal, as long as \<open>connect\<close> is not emitted again, no further \<open>close\<close> is emitted;
  and over any sequence of operations without a \<open>connect\<close> at most one \<open>close\<close> is
  emitted.
\<close>

theorem close_once:
  "named ''close'' (emitted (handleDisconnect this streamName err)) =
       named ''close'' (emitted this) @
       (if truthy (st_isConnected this)
        then [Emit ''close'' [JObj [(''code'', JNum 1011),
                                    (''reason'', JStr ''MetaMask background communication error.'')]]]
        else [])
   \<and> st_isConnected (handleDisconnect this streamName err) = JBool False
   \<and> (OpConnect \<notin> set ops \<longrightarrow>
        named ''close'' (emitted (run (handleDisconnect this streamName err) ops))
          = named ''close'' (emitted (handleDisconnect this streamName err)))
   \<and> (OpConnect \<notin> set ops \<longrightarrow>
        length (named ''close'' (emitted (run this ops)))
          \<le> Suc (length (named ''close'' (emitted this))))"
  using run_disconnected [of "handleDisconnect this streamName err" ops] run_close_once [of ops this]
  by (simp add: handleDisconnect_close)

text \<open>Two disconnect signals on a connected provider: one \<open>close\<close>.\<close>

theorem close_once_witness:
  "OpConnect \<notin> set [OpDisconnect ''MetaMask RpcProvider'' None, OpDisconnect ''MetaMask'' None]
   \<and> named ''close'' (emitted (run (emit_connect (init 0 None))
        [OpDisconnect ''MetaMask RpcProvider'' None, OpDisconnect ''MetaMask'' None]))
      = [Emit ''close'' [JObj [(''code'', JNum 1011),
                               (''reason'', JStr ''MetaMask background communication error.'')]]]
   \<and> length (named ''close'' (emitted (run (emit_connect (init 0 None))
        [OpDisconnect ''MetaMask RpcProvider'' None, OpDisconnect ''MetaMask'' None])))
      \<le> Suc (length (named ''close'' (emitted (emit_connect (init 0 None)))))"
  using close_once [of "emit_connect (init 0 None)" "''MetaMask RpcProvider''" None
      "[OpDisconnect ''MetaMask'' None]"]
    close_once [of "emit_connect (init 0 None)" "''MetaMask RpcProvider''" None
      "[OpDisconnect ''MetaMask RpcProvider'' None, OpDisconnect ''MetaMask'' None]"]
  by (simp add: run_Cons emit_connect_def)

section \<open>Requests and answers\<close>

lemma with_jsonrpc_method [simp]: "obj_get (with_jsonrpc payload) ''method'' = obj_get payload ''method''"
  by (simp add: with_jsonrpc_def obj_get_def obj_set_def update_conv')

lemma sendAsync_internal_engine:
  "engine (sendAsync_internal p payload cb) =
     engine p @ (if st_sentSiteMetadata p then [] else [SiteMetadata])
       @ [Handle (with_jsonrpc payload) (wrapped p payload cb)]"
  by (simp add: sendAsync_internal_def wrapped_def Let_def)

lemma sendAsync_internal_requests:
  "requests (sendAsync_internal p payload cb) = requests p @ [with_jsonrpc payload]"
  by (simp add: requests_def sendAsync_internal_engine)

lemma sendAsync_internal_flags [simp]:
  "st_sentSiteMetadata (sendAsync_internal p payload cb) = True"
  by (simp add: sendAsync_internal_def Let_def)

lemma reply_last_run_cb:
  "engine p = es @ [Handle payload cb] \<Longrightarrow>
     reply_last p err res = (case run_cb cb err res p of Inl e \<Rightarrow> p | Inr p' \<Rightarrow> p')"
  by (simp add: reply_last_def engine_reply_def)

lemma reply_last_sendAsync_internal:
  "reply_last (sendAsync_internal p payload cb) err res =
     (case run_cb (wrapped p payload cb) err res (sendAsync_internal p payload cb) of
        Inl e \<Rightarrow> sendAsync_internal p payload cb | Inr p' \<Rightarrow> p')"
  by (rule reply_last_run_cb [where es = "engine p @ (if st_sentSiteMetadata p then [] else [SiteMetadata])"])
     (simp add: sendAsync_internal_engine)

lemma resolved_iff:
  "rpcPromiseCallback err res = Resolved a \<longleftrightarrow>
     \<not> truthy err \<and> \<not> truthy (obj_get res ''error'') \<and> a = obj_get res ''result''"
  by (auto simp: rpcPromiseCallback_def js_or_def)

lemma accounts_callback_res_falsy: "\<not> truthy err \<Longrightarrow> accounts_callback_res err res = Inr res"
  by (simp add: accounts_callback_res_def)

lemma settle_promises:
  "n < length (promises p) \<Longrightarrow> promises p ! n = Pending \<Longrightarrow> promises (settle n out p) ! n = out"
  by (simp add: settle_def)

lemma hAC_requests [simp]: "requests (handleAccountsChanged p a) = requests p"
  by (simp add: requests_def hAC_fields)

lemma settle_requests [simp]: "requests (settle n out p) = requests p"
  by (simp add: requests_def)

lemma hAC_flags [simp]:
  "st_sentSiteMetadata (handleAccountsChanged p a) = st_sentSiteMetadata p"
  "warned_signTypedData (handleAccountsChanged p a) = warned_signTypedData p"
  by (simp_all add: handleAccountsChanged_def handleAccountsChanged_part_000_def Let_def
        split: option.splits)

lemma requestAccounts_eq:
  "requestAccounts p =
     (RetPromise (length (promises p)),
      sendAsync_internal (snd (new_promise p)) [(''method'', JStr ''eth_accounts'')]
        (RequestAccountsStep Query (length (promises p))))"
  by (simp add: requestAccounts_def new_promise_def)

lemma requests_new_promise [simp]: "requests (snd (new_promise p)) = requests p"
  by (simp add: requests_def)

lemma with_jsonrpc_accounts [simp]:
  "with_jsonrpc [(''method'', JStr ''eth_accounts'')]
     = [(''method'', JStr ''eth_accounts''), (''jsonrpc'', JStr ''2.0'')]"
  by (simp add: with_jsonrpc_def)

lemma with_jsonrpc_permissions [simp]:
  "with_jsonrpc [(''method'', JStr ''wallet_requestPermissions''),
                 (''params'', JArr [JObj [(''eth_accounts'', JObj [])]])]
     = [(''method'', JStr ''wallet_requestPermissions''),
        (''params'', JArr [JObj [(''eth_accounts'', JObj [])]]),
        (''jsonrpc'', JStr ''2.0'')]"
  by (simp add: with_jsonrpc_def)

text \<open>The three answers of the composite flow, one step each.\<close>

lemma query_answered:
  assumes ok: "rpcPromiseCallback e r = Resolved a"
    and cb: "wrapped q [(''method'', JStr ''eth_accounts'')] (RequestAccountsStep Query n)
               = AccountsCallback (RequestAccountsStep Query n)"
  shows "reply_last (sendAsync_internal q [(''method'', JStr ''eth_accounts'')] (RequestAccountsStep Query n)) e r =
     (let p1 = handleAccountsChanged
                 (sendAsync_internal q [(''method'', JStr ''eth_accounts'')] (RequestAccountsStep Query n))
                 (js_or a (JArr []))
      in if isArray a \<and> elements a \<noteq> []
         then settle n (Resolved a) p1
         else sendAsync_internal p1
                [(''method'', JStr ''wallet_requestPermissions''),
                 (''params'', JArr [JObj [(''eth_accounts'', JObj [])]])]
                (RequestAccountsStep Permission n))"
proof -
  from ok have "\<not> truthy e" and a: "a = obj_get r ''result''"
    by (simp_all add: resolved_iff)
  then show ?thesis
    using ok
    by (simp add: reply_last_sendAsync_internal cb accounts_callback_res_falsy Let_def)
qed

lemma permission_answered:
  assumes ok: "rpcPromiseCallback e r = Resolved a"
  shows "reply_last (sendAsync_internal q
            [(''method'', JStr ''wallet_requestPermissions''),
             (''params'', JArr [JObj [(''eth_accounts'', JObj [])]])]
            (RequestAccountsStep Permission n)) e r =
     sendAsync_internal
       (sendAsync_internal q
            [(''method'', JStr ''wallet_requestPermissions''),
             (''params'', JArr [JObj [(''eth_accounts'', JObj [])]])]
            (RequestAccountsStep Permission n))
       [(''method'', JStr ''eth_accounts'')] (RequestAccountsStep Requery n)"
  using ok
  by (simp add: reply_last_sendAsync_internal wrapped_def)

lemma requery_answered:
  assumes ok: "rpcPromiseCallback e r = Resolved a"
  shows "reply_last (sendAsync_internal q [(''method'', JStr ''eth_accounts'')] (RequestAccountsStep Requery n)) e r =
     settle n (Resolved a)
       (handleAccountsChanged
          (sendAsync_internal q [(''method'', JStr ''eth_accounts'')] (RequestAccountsStep Requery n))
          (js_or a (JArr [])))"
proof -
  from ok have "\<not> truthy e" and a: "a = obj_get r ''result''"
    by (simp_all add: resolved_iff)
  then show ?thesis
    using ok
    by (simp add: reply_last_sendAsync_internal wrapped_def accounts_callback_res_falsy)
qed

lemma wrapped_accounts [simp]:
  "wrapped q [(''method'', JStr ''eth_accounts'')] cb = AccountsCallback cb"
  by (simp add: wrapped_def)

lemma send_requestAccounts:
  "send p (JStr ''eth_requestAccounts'') JUndefined = Inr (requestAccounts p)"
  "send_part_000 p (JStr ''eth_requestAccounts'') JUndefined = Inr (requestAccounts p)"
  by (simp_all add: send_def send_part_000_def send_dispatch_def)

lemma enable_requestAccounts:
  "fst (enable p) = fst (requestAccounts p)"
  "engine (snd (enable p)) = engine (snd (requestAccounts p))"
  "promises (snd (enable p)) = promises (snd (requestAccounts p))"
  by (simp_all add: enable_def requestAccounts_eq sendAsync_internal_engine wrapped_def)


text \<open>What a disconnect does, field by field, and what can settle a promise.\<close>

lemma handleDisconnect_eq:
  "handleDisconnect this streamName err =
     this\<lparr>console := console this @
              [ConsoleWarn (''MetamaskInpageProvider - lost connection to '' @ streamName
                 @ (case err of None \<Rightarrow> [] | Some stack \<Rightarrow> CHR 0x0A # stack))],
          emitted := emitted this
            @ (if error_listeners this > 0
               then [Emit ''error''
                      [JStr (''MetamaskInpageProvider - lost connection to '' @ streamName
                         @ (case err of None \<Rightarrow> [] | Some stack \<Rightarrow> CHR 0x0A # stack))]]
               else [])
            @ (if truthy (st_isConnected this)
               then [Emit ''close''
                      [JObj [(''code'', JNum 1011),
                             (''reason'', JStr ''MetaMask background communication error.'')]]]
               else []),
          st_isConnected := JBool False\<rparr>"
  by (simp add: handleDisconnect_def logStreamDisconnectWarning_def emit_def console_log_def Let_def)

lemma sendSync_promises: "sendSync p payload = Inr (r, p') \<Longrightarrow> promises p' = promises p"
  by (auto simp: sendSync_def Let_def split: if_splits)

lemma requestAccounts_promises:
  "requestAccounts p = (r, p') \<Longrightarrow> promises p' = promises p @ [Pending]"
  using requestAccounts_fields(5) [of p] by (simp del: requestAccounts_fields)

lemma send_dispatch_promises:
  "send_dispatch p payload = Inr (r, p') \<Longrightarrow> promises p' = promises p @ [Pending]"
  by (auto simp: send_dispatch_def split_beta split: if_splits sum.splits
        dest: requestAccounts_promises)

lemma send_promises:
  "send p m ps = Inr (r, p') \<Longrightarrow> \<exists>xs. promises p' = promises p @ xs"
  by (auto simp: send_def split: if_splits sum.splits
        dest: send_dispatch_promises sendSync_promises)

lemma notification_promises [simp]: "promises (notification_handler p payload) = promises p"
  by (simp add: notification_handler_def hAC_fields data_listener_def split: sum.splits)

lemma apply_op_promises:
  "\<not> is_reply op \<Longrightarrow> \<exists>xs. promises (apply_op p op) = promises p @ xs"
proof (cases op)
  case (OpSend m ps)
  then show ?thesis
    using send_promises [of p m ps] by (auto split: sum.splits)
next
  case OpEnable
  then show ?thesis by (simp add: enable_def)
qed (simp_all add: emit_connect_def)

lemma run_promises:
  "\<forall>op \<in> set ops. \<not> is_reply op \<Longrightarrow> take (length (promises p)) (promises (run p ops)) = promises p"
proof (induction ops arbitrary: p)
  case Nil
  then show ?case by (simp add: run_def)
next
  case (Cons op ops)
  from Cons.prems obtain xs where xs: "promises (apply_op p op) = promises p @ xs"
    using apply_op_promises [of op p] by auto
  have "take (length (promises (apply_op p op))) (promises (run (apply_op p op) ops))
          = promises (apply_op p op)"
    using Cons.prems by (intro Cons.IH) simp
  then have "take (length (promises p)) (take (length (promises (apply_op p op)))
          (promises (run (apply_op p op) ops))) = take (length (promises p)) (promises (apply_op p op))"
    by simp
  then show ?case
    by (simp add: run_Cons xs min_def)
qed



text \<open>
  C8. \<open>_requestAccounts\<close> returns a promise and sends \<open>eth_accounts\<close>. When that is
  answered with a non-empty array, the promise is resolved with it and nothing more is
  sent. When it is answered with anything else, \<open>wallet_requestPermissions\<close> is sent for
  \<open>eth_accounts\<close>; when that is answered, \<open>eth_accounts\<close> is sent again; and when
  that is answered, the promise is resolved with the new answer. \<open>send\<close> with
  \<open>eth_requestAccounts\<close> (in both copies of the file) is \<open>_requestAccounts\<close>, and
  \<open>enable\<close> sends the same request with the same callback.
\<close>

theorem request_accounts_flow:
  "(let n = length (promises p);
        p1 = snd (requestAccounts p);
        p2 = reply_last p1 e r;
        p3 = reply_last p2 e' r';
        p4 = reply_last p3 e'' r''
    in fst (requestAccounts p) = RetPromise n
       \<and> promises p1 ! n = Pending
       \<and> requests p1 = requests p @ [[(''method'', JStr ''eth_accounts''), (''jsonrpc'', JStr ''2.0'')]]
       \<and> (rpcPromiseCallback e r = Resolved a \<and> isArray a \<and> elements a \<noteq> [] \<longrightarrow>
            promises p2 ! n = Resolved a \<and> requests p2 = requests p1)
       \<and> (rpcPromiseCallback e r = Resolved a \<and> \<not> (isArray a \<and> elements a \<noteq> []) \<longrightarrow>
            promises p2 ! n = Pending
            \<and> requests p2 = requests p1 @
                 [[(''method'', JStr ''wallet_requestPermissions''),
                   (''params'', JArr [JObj [(''eth_accounts'', JObj [])]]),
                   (''jsonrpc'', JStr ''2.0'')]]
            \<and> (rpcPromiseCallback e' r' = Resolved a' \<longrightarrow>
                 promises p3 ! n = Pending
                 \<and> requests p3 = requests p2 @
                      [[(''method'', JStr ''eth_accounts''), (''jsonrpc'', JStr ''2.0'')]]
                 \<and> (rpcPromiseCallback e'' r'' = Resolved a'' \<longrightarrow>
                      promises p4 ! n = Resolved a'' \<and> requests p4 = requests p3)))
       \<and> send p (JStr ''eth_requestAccounts'') JUndefined = Inr (requestAccounts p)
       \<and> send_part_000 p (JStr ''eth_requestAccounts'') JUndefined = Inr (requestAccounts p)
       \<and> fst (enable p) = fst (requestAccounts p)
       \<and> engine (snd (enable p)) = engine p1
       \<and> promises (snd (enable p)) = promises p1)"
proof -
  let ?n = "length (promises p)"
  let ?p1 = "snd (requestAccounts p)"
  let ?p2 = "reply_last ?p1 e r"
  let ?p3 = "reply_last ?p2 e' r'"
  let ?p4 = "reply_last ?p3 e'' r''"
  have p1: "?p1 = sendAsync_internal (snd (new_promise p)) [(''method'', JStr ''eth_accounts'')]
                    (RequestAccountsStep Query ?n)"
    by (simp add: requestAccounts_eq)
  have start: "fst (requestAccounts p) = RetPromise ?n" "promises ?p1 ! ?n = Pending"
    "requests ?p1 = requests p @ [[(''method'', JStr ''eth_accounts''), (''jsonrpc'', JStr ''2.0'')]]"
    by (simp_all add: requestAccounts_eq sendAsync_internal_requests)
  have direct: "promises ?p2 ! ?n = Resolved a \<and> requests ?p2 = requests ?p1"
    if "rpcPromiseCallback e r = Resolved a" "isArray a" "elements a \<noteq> []"
    using that unfolding p1
    by (simp add: query_answered settle_promises hAC_fields sendAsync_internal_requests)
  have ask: "?p2 = sendAsync_internal (handleAccountsChanged ?p1 (js_or a (JArr [])))
                [(''method'', JStr ''wallet_requestPermissions''),
                 (''params'', JArr [JObj [(''eth_accounts'', JObj [])]])]
                (RequestAccountsStep Permission ?n)"
    if "rpcPromiseCallback e r = Resolved a" "\<not> (isArray a \<and> elements a \<noteq> [])"
    using that unfolding p1 by (auto simp add: query_answered Let_def)
  have asked: "promises ?p2 ! ?n = Pending \<and> requests ?p2 = requests ?p1 @
                 [[(''method'', JStr ''wallet_requestPermissions''),
                   (''params'', JArr [JObj [(''eth_accounts'', JObj [])]]),
                   (''jsonrpc'', JStr ''2.0'')]]"
    if "rpcPromiseCallback e r = Resolved a" "\<not> (isArray a \<and> elements a \<noteq> [])"
    unfolding ask [OF that]
    by (simp add: sendAsync_internal_requests hAC_fields start)
  have requery: "?p3 = sendAsync_internal ?p2 [(''method'', JStr ''eth_accounts'')]
                         (RequestAccountsStep Requery ?n)"
    if "rpcPromiseCallback e r = Resolved a" "\<not> (isArray a \<and> elements a \<noteq> [])"
      "rpcPromiseCallback e' r' = Resolved a'"
    unfolding ask [OF that(1,2)] using that(3) by (simp add: permission_answered)
  have requeried: "promises ?p3 ! ?n = Pending \<and> requests ?p3 = requests ?p2 @
                      [[(''method'', JStr ''eth_accounts''), (''jsonrpc'', JStr ''2.0'')]]"
    if "rpcPromiseCallback e r = Resolved a" "\<not> (isArray a \<and> elements a \<noteq> [])"
      "rpcPromiseCallback e' r' = Resolved a'"
    unfolding requery [OF that] using asked [OF that(1,2)]
    by (simp add: sendAsync_internal_requests)
  have finish: "promises ?p4 ! ?n = Resolved a'' \<and> requests ?p4 = requests ?p3"
    if "rpcPromiseCallback e r = Resolved a" "\<not> (isArray a \<and> elements a \<noteq> [])"
      "rpcPromiseCallback e' r' = Resolved a'" "rpcPromiseCallback e'' r'' = Resolved a''"
  proof -
    have len: "?n < length (promises ?p2)" and pend: "promises ?p2 ! ?n = Pending"
      using asked [OF that(1,2)] unfolding ask [OF that(1,2)]
      by (simp_all add: hAC_fields p1)
    show ?thesis
      unfolding requery [OF that(1,2,3)] using that(4) len pend
      by (simp add: requery_answered settle_promises hAC_fields sendAsync_internal_requests)
  qed
  show ?thesis
    unfolding Let_def
    using start direct asked requeried finish send_requestAccounts [of p] enable_requestAccounts [of p]
    by blast
qed

text \<open>
  Both branches on the initial provider: accounts at once, and accounts after the
  permission was granted.
\<close>

theorem request_accounts_flow_witness:
  "rpcPromiseCallback JUndefined [(''result'', JArr [JStr ''0xA''])] = Resolved (JArr [JStr ''0xA''])
   \<and> isArray (JArr [JStr ''0xA'']) \<and> elements (JArr [JStr ''0xA'']) \<noteq> []
   \<and> promises (reply_last (snd (requestAccounts (init 0 None))) JUndefined
         [(''result'', JArr [JStr ''0xA''])]) ! 0 = Resolved (JArr [JStr ''0xA''])
   \<and> rpcPromiseCallback JUndefined [(''result'', JArr [])] = Resolved (JArr [])
   \<and> \<not> (isArray (JArr []) \<and> elements (JArr []) \<noteq> [])
   \<and> rpcPromiseCallback JUndefined [(''result'', JArr [JObj [(''parentCapability'', JStr ''eth_accounts'')]])]
       = Resolved (JArr [JObj [(''parentCapability'', JStr ''eth_accounts'')]])
   \<and> promises (reply_last (reply_last (reply_last (snd (requestAccounts (init 0 None)))
         JUndefined [(''result'', JArr [])])
         JUndefined [(''result'', JArr [JObj [(''parentCapability'', JStr ''eth_accounts'')]])])
         JUndefined [(''result'', JArr [JStr ''0xA''])]) ! 0 = Resolved (JArr [JStr ''0xA''])"
  using request_accounts_flow [where p = "init 0 None" and e = JUndefined
      and r = "[(''result'', JArr [JStr ''0xA''])]" and a = "JArr [JStr ''0xA'']"]
    request_accounts_flow [where p = "init 0 None" and e = JUndefined
      and r = "[(''result'', JArr [])]" and a = "JArr []" and e' = JUndefined
      and r' = "[(''result'', JArr [JObj [(''parentCapability'', JStr ''eth_accounts'')]])]"
      and a' = "JArr [JObj [(''parentCapability'', JStr ''eth_accounts'')]]"
      and e'' = JUndefined and r'' = "[(''result'', JArr [JStr ''0xA''])]"
      and a'' = "JArr [JStr ''0xA'']"]
  by (simp add: Let_def rpcPromiseCallback_def js_or_def)

lemma obj_get_set [simp]: "obj_get (obj_set ps k v) k = v"
  by (simp add: obj_get_def obj_set_def update_conv')

lemma obj_get_set_delete [simp]:
  "k' \<noteq> k \<Longrightarrow> obj_get (obj_set (obj_delete ps k') k v) k' = JUndefined"
  by (simp add: obj_get_def obj_set_def obj_delete_def update_conv' delete_conv')

text \<open>The two ways an unauthorized answer can reach the callback of \<open>eth_accounts\<close>.\<close>

lemma unauthorized_err_rejects:
  assumes "truthy err" "get_prop err ''code'' = Inr (JNum 4100)"
    "n < length (promises p)" "promises p ! n = Pending"
  shows "run_cb (AccountsCallback (RpcPromiseCallback n)) err res p =
           Inr (settle n (Rejected err) (handleAccountsChanged p (JArr [])))"
    and "promises (settle n (Rejected err) (handleAccountsChanged p (JArr []))) ! n = Rejected err"
  using assms
  by (simp_all add: accounts_callback_res_def rpcPromiseCallback_def js_or_def settle_promises
        hAC_fields)

lemma unauthorized_cleared_resolves:
  assumes "obj_get req ''method'' = JStr ''eth_accounts''"
    "truthy (obj_get res ''error'')" "get_prop (obj_get res ''error'') ''code'' = Inr (JNum 4100)"
    "\<not> truthy err" "n < length (promises p)" "promises p ! n = Pending"
  shows "run_cb (AccountsCallback (RpcPromiseCallback n)) err (snd (errorMiddleware_return req res)) p =
           Inr (settle n (Resolved (JArr [])) (handleAccountsChanged p (JArr [])))"
    and "promises (settle n (Resolved (JArr [])) (handleAccountsChanged p (JArr []))) ! n
           = Resolved (JArr [])"
    and "emitted (settle n (Resolved (JArr [])) (handleAccountsChanged p (JArr []))) =
           emitted p @ (if st_accounts p = [] then [] else [Emit ''accountsChanged'' [JArr []]])"
  using assms
  by (simp_all add: errorMiddleware_return_def accounts_callback_res_def rpcPromiseCallback_def
        js_or_def settle_promises hAC_fields hAC0_emitted dequal_iff Let_def)

text \<open>
  C2 does not hold of the callback of \<open>eth_accounts\<close> in \<open>_sendAsync\<close>. A page with
  one cached account sends \<open>eth_accounts\<close>, and the engine calls back with the
  unauthorized error (code 4100). The callback clears the error of the response, sets its
  result to the empty list and reconciles the accounts (one \<open>accountsChanged\<close> with the
  empty list), and then passes the error on: the promise is rejected with it.
\<close>

theorem unauthorized_accounts_rejected:
  "promises (run (init 0 None)
      [OpNotification [(''method'', JStr ''wallet_accountsChanged''), (''result'', JArr [JStr ''0xA''])],
       OpSend (JStr ''eth_accounts'') JUndefined,
       OpReply 1 (JObj [(''code'', JNum 4100), (''message'', JStr ''Unauthorized'')])
         [(''id'', JNum 1), (''jsonrpc'', JStr ''2.0''),
          (''error'', JObj [(''code'', JNum 4100), (''message'', JStr ''Unauthorized'')])]])
     = [Rejected (JObj [(''code'', JNum 4100), (''message'', JStr ''Unauthorized'')])]
   \<and> emitted (run (init 0 None)
      [OpNotification [(''method'', JStr ''wallet_accountsChanged''), (''result'', JArr [JStr ''0xA''])],
       OpSend (JStr ''eth_accounts'') JUndefined,
       OpReply 1 (JObj [(''code'', JNum 4100), (''message'', JStr ''Unauthorized'')])
         [(''id'', JNum 1), (''jsonrpc'', JStr ''2.0''),
          (''error'', JObj [(''code'', JNum 4100), (''message'', JStr ''Unauthorized'')])]])
     = [Emit ''accountsChanged'' [JArr [JStr ''0xA'']], Emit ''accountsChanged'' [JArr []]]"
  by (simp add: run_def notification_handler_def send_def send_dispatch_def split_beta
        engine_reply_def sendAsync_internal_engine wrapped_def accounts_callback_res_def
        rpcPromiseCallback_def js_or_def settle_def hAC_fields hAC0_emitted hAC0_accounts dequal_iff)

section \<open>The arguments of send\<close>

lemma typeof_string: "typeof_js v = ''string'' \<longleftrightarrow> (\<exists>s. v = JStr s)"
  by (cases v) auto

lemma send_dispatch_malformed:
  "malformed payload \<Longrightarrow> payload \<noteq> JNull \<Longrightarrow>
     send_dispatch p payload = Inl (Error ''messages.errors.invalidParams()'')"
  by (cases payload) (simp_all add: send_dispatch_def)

lemma send_part_000_dispatch: "send_part_000 p m ps = send_dispatch p (payload_of m ps)"
  by (simp add: send_part_000_def payload_of_def)

lemma send_params_dispatch: "ps \<noteq> JUndefined \<Longrightarrow> send p m ps = send_dispatch p (payload_of m ps)"
  by (simp add: send_def payload_of_def)

lemma send_malformed:
  assumes "malformed (payload_of m ps)" "payload_of m ps \<noteq> JNull" "payload_of m ps \<noteq> JUndefined"
  shows "send p m ps = Inl (Error ''messages.errors.invalidParams()'')"
    and "send_part_000 p m ps = Inl (Error ''messages.errors.invalidParams()'')"
proof -
  show "send_part_000 p m ps = Inl (Error ''messages.errors.invalidParams()'')"
    using assms by (simp add: send_part_000_dispatch send_dispatch_malformed)
  show "send p m ps = Inl (Error ''messages.errors.invalidParams()'')"
  proof (cases "ps = JUndefined")
    case False
    with assms show ?thesis by (simp add: send_params_dispatch send_dispatch_malformed)
  next
    case True
    with assms have m: "malformed m" "m \<noteq> JNull" "m \<noteq> JUndefined" "typeof_js m \<noteq> ''string''"
      by (auto simp: payload_of_def split: if_splits)
    then show ?thesis
      using True
      by (cases m) (auto simp: send_def send_dispatch_def typeof_string)
  qed
qed

lemma send_malformed_fails:
  assumes "malformed (payload_of m ps)"
  shows "\<exists>e. send p m ps = Inl e" and "\<exists>e. send_part_000 p m ps = Inl e"
proof -
  show "\<exists>e. send_part_000 p m ps = Inl e"
    using assms
    by (cases "payload_of m ps")
       (auto simp: send_part_000_dispatch send_dispatch_def)
  show "\<exists>e. send p m ps = Inl e"
  proof (cases "payload_of m ps = JNull \<or> payload_of m ps = JUndefined")
    case False
    with assms show ?thesis by (simp add: send_malformed)
  next
    case True
    then have "ps = JUndefined" "m = JNull \<or> m = JUndefined"
      by (auto simp: payload_of_def split: if_splits)
    then show ?thesis by (auto simp: send_def)
  qed
qed

text \<open>
  C7 does not hold for a payload that is \<open>null\<close>, nor in \<open>index.js\<close> for one that is
  \<open>undefined\<close>: \<open>send\<close> fails at once, but with the TypeError of reading
  \<open>payload.method\<close>, not with the invalid-params error. (Every other malformed payload
  gets the invalid-params error, and every malformed payload fails before anything is
  handed to the engine: \<open>send_malformed\<close> and \<open>send_malformed_fails\<close>.)
\<close>

theorem send_null_payload:
  "send this JNull JUndefined = Inl TypeError
   \<and> send_part_000 this JNull JUndefined = Inl TypeError
   \<and> send this JUndefined JUndefined = Inl TypeError
   \<and> send_part_000 this JUndefined JUndefined = Inl (Error ''messages.errors.invalidParams()'')
   \<and> malformed (payload_of JNull JUndefined) \<and> malformed (payload_of JUndefined JUndefined)"
  by (simp add: send_def send_part_000_def send_dispatch_def payload_of_def)

lemma with_jsonrpc_payload:
  "with_jsonrpc [(''method'', m), (''params'', x)]
     = [(''method'', m), (''params'', x), (''jsonrpc'', JStr ''2.0'')]"
  by (simp add: with_jsonrpc_def)

lemma sent_requests_sendAsync_internal:
  "sent_requests p (Inr (ret, sendAsync_internal (snd (new_promise p)) payload cb)) = [with_jsonrpc payload]"
  by (simp add: sent_requests_def sendAsync_internal_requests)

text \<open>
  C10, amended. For a method name other than \<open>eth_requestAccounts\<close> and parameters that
  are defined, \<open>send\<close> (in both copies of the file) hands the engine exactly one request,
  with that method and with the parameters, wrapped in a one-element array when they are
  not an array. For \<open>eth_requestAccounts\<close> the payload built from the parameters is
  dropped: \<open>send\<close> is \<open>_requestAccounts\<close>, which sends \<open>eth_accounts\<close> without
  parameters.
\<close>

theorem send_wraps_params:
  "(typeof_js m = ''string'' \<and> ps \<noteq> JUndefined \<and> m \<noteq> JStr ''eth_requestAccounts'' \<longrightarrow>
      sent_requests p (send p m ps) =
        [[(''method'', m), (''params'', if isArray ps then ps else JArr [ps]),
          (''jsonrpc'', JStr ''2.0'')]]
      \<and> sent_requests p (send_part_000 p m ps) = sent_requests p (send p m ps)
      \<and> isArray (if isArray ps then ps else JArr [ps]))
   \<and> (ps \<noteq> JUndefined \<longrightarrow>
      send p (JStr ''eth_requestAccounts'') ps = Inr (requestAccounts p)
      \<and> send_part_000 p (JStr ''eth_requestAccounts'') ps = Inr (requestAccounts p)
      \<and> sent_requests p (send p (JStr ''eth_requestAccounts'') ps) =
          [[(''method'', JStr ''eth_accounts''), (''jsonrpc'', JStr ''2.0'')]])"
proof -
  have wrap: "sent_requests p (send_dispatch p (payload_of m ps)) =
        [[(''method'', m), (''params'', if isArray ps then ps else JArr [ps]),
          (''jsonrpc'', JStr ''2.0'')]]"
    if "typeof_js m = ''string''" "ps \<noteq> JUndefined" "m \<noteq> JStr ''eth_requestAccounts''"
    using that
    by (auto simp: payload_of_def send_dispatch_def split_beta new_promise_def [of p, symmetric]
          sent_requests_def sendAsync_internal_requests with_jsonrpc_payload)
  have ra: "sent_requests p (Inr (requestAccounts p)) =
          [[(''method'', JStr ''eth_accounts''), (''jsonrpc'', JStr ''2.0'')]]"
    by (simp add: sent_requests_def requestAccounts_eq sendAsync_internal_requests)
  have disp: "send_dispatch p (payload_of (JStr ''eth_requestAccounts'') ps) = Inr (requestAccounts p)"
    if "ps \<noteq> JUndefined"
    using that by (simp add: payload_of_def send_dispatch_def)
  show ?thesis
    using wrap ra disp
    by (auto simp: send_params_dispatch send_part_000_dispatch)
qed

text \<open>A method with one parameter that is not an array, and \<open>eth_requestAccounts\<close>.\<close>

theorem send_wraps_params_witness:
  "typeof_js (JStr ''eth_getBalance'') = ''string'' \<and> JStr ''0xA'' \<noteq> JUndefined
   \<and> JStr ''eth_getBalance'' \<noteq> JStr ''eth_requestAccounts''
   \<and> sent_requests (init 0 None) (send (init 0 None) (JStr ''eth_getBalance'') (JStr ''0xA'')) =
        [[(''method'', JStr ''eth_getBalance''), (''params'', JArr [JStr ''0xA'']),
          (''jsonrpc'', JStr ''2.0'')]]
   \<and> send (init 0 None) (JStr ''eth_requestAccounts'') (JStr ''0xA'')
        = Inr (requestAccounts (init 0 None))"
  using send_wraps_params [of "JStr ''eth_getBalance''" "JStr ''0xA''" "init 0 None"]
    send_wraps_params [of "JStr ''eth_requestAccounts''" "JStr ''0xA''" "init 0 None"]
  by simp

text \<open>
  C10, as stated, fails: \<open>send('eth_requestAccounts', 5)\<close> hands the engine a request
  that has no \<open>params\<close> at all.
\<close>

theorem request_accounts_drops_params:
  "sent_requests (init 0 None) (send (init 0 None) (JStr ''eth_requestAccounts'') (JNum 5)) =
     [[(''method'', JStr ''eth_accounts''), (''jsonrpc'', JStr ''2.0'')]]
   \<and> map (\<lambda>payload. obj_get payload ''params'')
        (sent_requests (init 0 None) (send (init 0 None) (JStr ''eth_requestAccounts'') (JNum 5)))
      = [JUndefined]
   \<and> \<not> isArray JUndefined"
  by (simp add: send_def send_dispatch_def sent_requests_def requestAccounts_eq
        sendAsync_internal_requests)

section \<open>Configuration snapshots: the claims\<close>

text \<open>
  C1 does not hold of the provider. The handler updates and emits on its receiver, which
  is the store: the delivery of any snapshot leaves the provider's \<open>chainId\<close> and
  \<open>networkVersion\<close> as they were and emits nothing on the provider. On a new provider
  the snapshot with chain id \<open>0x1\<close>, network version \<open>1\<close> and the lock flag set leaves
  both public fields \<open>undefined\<close> and the provider without any event; the new values
  and the three events are on the store, and only the lock flag, which is the module's, is
  updated.
\<close>

theorem config_snapshot_misses_provider:
  "chainId (apply_op p (OpConfig state)) = chainId p
   \<and> networkVersion (apply_op p (OpConfig state)) = networkVersion p
   \<and> emitted (apply_op p (OpConfig state)) = emitted p
   \<and> chainId (run (init 0 None)
        [OpConfig [(''chainId'', JStr ''0x1''), (''networkVersion'', JStr ''1''),
                   (''isUnlocked'', JBool True)]]) = JUndefined
   \<and> networkVersion (run (init 0 None)
        [OpConfig [(''chainId'', JStr ''0x1''), (''networkVersion'', JStr ''1''),
                   (''isUnlocked'', JBool True)]]) = JUndefined
   \<and> emitted (run (init 0 None)
        [OpConfig [(''chainId'', JStr ''0x1''), (''networkVersion'', JStr ''1''),
                   (''isUnlocked'', JBool True)]]) = []
   \<and> st_isUnlocked (run (init 0 None)
        [OpConfig [(''chainId'', JStr ''0x1''), (''networkVersion'', JStr ''1''),
                   (''isUnlocked'', JBool True)]]) = JBool True
   \<and> r_chainId (store (run (init 0 None)
        [OpConfig [(''chainId'', JStr ''0x1''), (''networkVersion'', JStr ''1''),
                   (''isUnlocked'', JBool True)]])) = JStr ''0x1''
   \<and> r_emitted (store (run (init 0 None)
        [OpConfig [(''chainId'', JStr ''0x1''), (''networkVersion'', JStr ''1''),
                   (''isUnlocked'', JBool True)]]))
       = [Emit ''chainChanged'' [JStr ''0x1''], Emit ''chainIdChanged'' [JStr ''0x1''],
          Emit ''networkChanged'' [JStr ''1'']]"
  by (simp add: run_def handler_chainId handler_networkVersion handler_emitted handler_isUnlocked
        strict_eq_def)

text \<open>
  C9 does not hold of the provider, by the same defect. The same snapshot, with a chain
  id and a network version that differ from the cached values, is delivered twice to a new
  provider: the provider emits nothing on the first delivery and nothing on the second,
  not one pair of events; the one \<open>chainChanged\<close> (with its alias) and the one
  \<open>networkChanged\<close> are emitted on the store. In any state, two deliveries leave the
  provider's events as they were.
\<close>

theorem config_snapshot_repeat_misses_provider:
  "emitted (run (init 0 None)
      [OpConfig [(''chainId'', JStr ''0x1''), (''networkVersion'', JStr ''1'')]]) = []
   \<and> emitted (run (init 0 None)
      [OpConfig [(''chainId'', JStr ''0x1''), (''networkVersion'', JStr ''1'')],
       OpConfig [(''chainId'', JStr ''0x1''), (''networkVersion'', JStr ''1'')]]) = []
   \<and> r_emitted (store (run (init 0 None)
      [OpConfig [(''chainId'', JStr ''0x1''), (''networkVersion'', JStr ''1'')],
       OpConfig [(''chainId'', JStr ''0x1''), (''networkVersion'', JStr ''1'')]]))
       = [Emit ''chainChanged'' [JStr ''0x1''], Emit ''chainIdChanged'' [JStr ''0x1''],
          Emit ''networkChanged'' [JStr ''1'']]
   \<and> emitted (run p [OpConfig state, OpConfig state]) = emitted p
   \<and> chainId (run p [OpConfig state, OpConfig state]) = chainId p
   \<and> networkVersion (run p [OpConfig state, OpConfig state]) = networkVersion p"
  by (simp add: run_def handler_chainId handler_networkVersion handler_emitted strict_eq_def)

end
